theory Spec2Isabelle
  imports Complex_Main "HOL-Library.Word"
begin

unbundle bit_operations_syntax

section \<open>Numbers and the diagnostics sink\<close>

text \<open>
  A JavaScript number that reaches an input check is either one of the three non-finite
  values or a finite value. Finite values are taken as reals: rounding of the binary
  representation is outside this development. Timestamps returned by \<^verbatim>\<open>Date.now()\<close> are
  integers (milliseconds).
\<close>

datatype jsnum = NaN | PosInf | NegInf | Fin real

text \<open>\<^verbatim>\<open>Number.isFinite(x)\<close>\<close>

fun isFinite :: "jsnum \<Rightarrow> bool" where
  "isFinite (Fin x) = True"
| "isFinite NaN = False"
| "isFinite PosInf = False"
| "isFinite NegInf = False"

text \<open>\<^verbatim>\<open>x <= 0\<close>: every comparison with NaN is false.\<close>

fun js_le_zero :: "jsnum \<Rightarrow> bool" where
  "js_le_zero (Fin x) = (x \<le> 0)"
| "js_le_zero NaN = False"
| "js_le_zero PosInf = False"
| "js_le_zero NegInf = True"

text \<open>
  \<^verbatim>\<open>Debug.Log\<close>, \<^verbatim>\<open>Debug.Warn\<close> and \<^verbatim>\<open>Debug.Error\<close> write to the console and have no
  influence on control flow. A call is recorded as its level and its numeric code; the
  codes are the names the callers import from \<^verbatim>\<open>codes\<close>.
\<close>

datatype level = Info | Warning | Error

datatype code =
    NoCode
  | THREAD_ALREADY_ACTIVE
  | THREAD_ALREADY_INACTIVE
  | THREAD_INVALID_SIMULATION_UPDATE_RATE
  | THREAD_INVALID_DELTA_TIME
  | WGPUR_CANVAS_NOT_CREATED
  | WGPUR_API_NOT_SUPPORTED
  | WGPUR_UNABLE_TO_GET_ADAPTER
  | WGPUR_HIGH_DPR_VALUE
  | WGPUR_INVALID_DPR_VALUE
  | WGPUR_DEVICE_UNDEFINED
  | WGPUR_CONTEXT_UNDEFINED
  | WGPUR_SCENE_NOT_PREPARED
  | WGPURSCENE_RENDERER_NOT_INITIALIZED
  | CAM_UNIFORM_BUFFER_UNDEFINED

type_synonym diag = "level \<times> code"

section \<open>Thread: the frame scheduler\<close>

text \<open>
  Listeners are opaque callbacks; a listener is identified by a number and a call of it is
  recorded together with the payload it received. The fields of the update payload are those
  of \<^verbatim>\<open>ThreadOnLoopEvent\<close>.
\<close>

type_synonym listener = nat

record update_payload =
  p_now :: int
  p_deltaTime :: real
  p_frameRate :: nat
  p_lastRegisteredTimestamp :: int
  p_simulationUpdateRate :: real

datatype thread_output =
    Diag level code
  | RequestAnimationFrame nat
  | CancelAnimationFrame nat
  | CallStart listener
  | CallStop listener
  | CallIdle listener
  | CallUpdate listener update_payload

record thread_events =
  ev_idle :: "listener list"
  ev_start :: "listener list"
  ev_stop :: "listener list"
  ev_update :: "listener list"

text \<open>
  The fields of class \<^verbatim>\<open>Thread\<close>. \<open>raf_counter\<close> is the platform's counter of animation
  frame requests (each request returns the next positive handle) and \<open>outlog\<close> collects what
  the thread did to the outside: diagnostics, frame requests and listener calls, in order.
  The numeric fields hold finite numbers: the constructor sets finite values and the setters
  refuse every other one. A listener is called with its payload and does not call back into
  the thread.
\<close>

record thread =
  simulationUpdateRate :: real
  frameRate :: nat
  deltaTime :: real
  currentRegisteredTimestamp :: int
  lastRegisteredTimestamp :: int
  startTimestamp :: int
  events :: thread_events
  isActive :: bool
  animationFrame :: nat
  times :: "int list"
  maxDeltaMs :: real
  raf_counter :: nat
  outlog :: "thread_output list"

text \<open>The constructor; the three arguments are the three readings of \<^verbatim>\<open>Date.now()\<close>.\<close>

definition new_Thread :: "int \<Rightarrow> int \<Rightarrow> int \<Rightarrow> thread" where
  "new_Thread c l s =
     \<lparr> simulationUpdateRate = 60, frameRate = 0, deltaTime = 0,
       currentRegisteredTimestamp = c, lastRegisteredTimestamp = l, startTimestamp = s,
       events = \<lparr> ev_idle = [], ev_start = [], ev_stop = [], ev_update = [] \<rparr>,
       isActive = False, animationFrame = 0, times = [], maxDeltaMs = 250,
       raf_counter = 0, outlog = [] \<rparr>"

text \<open>\<^verbatim>\<open>window.requestAnimationFrame(this.loop)\<close>, assigned to \<^verbatim>\<open>this.animationFrame\<close>.\<close>

definition requestAnimationFrame :: "thread \<Rightarrow> thread" where
  "requestAnimationFrame t =
     (let h = Suc (raf_counter t)
      in t\<lparr> raf_counter := h, animationFrame := h,
            outlog := outlog t @ [RequestAnimationFrame h] \<rparr>)"

text \<open>
  \<^verbatim>\<open>while (this.times.length > 0 && this.times[0] <= now - 1000) this.times.shift();\<close>
\<close>

fun evict :: "int list \<Rightarrow> int \<Rightarrow> int list" where
  "evict [] now = []"
| "evict (x # xs) now = (if x \<le> now - 1000 then evict xs now else x # xs)"

text \<open>
  One run of \<^verbatim>\<open>loop\<close>; \<open>now\<close> is the reading of \<^verbatim>\<open>Date.now()\<close> in it. The argument
  \<^verbatim>\<open>rafTime\<close> of the source is not used by it and is left out.
\<close>

definition loop :: "thread \<Rightarrow> int \<Rightarrow> thread" where
  "loop t now =
     (if \<not> isActive t then t
      else
        let t1 = requestAnimationFrame t;
            rawDeltaMs = real_of_int (now - lastRegisteredTimestamp t1);
            deltaMs = min rawDeltaMs (maxDeltaMs t1);
            deltaSec = deltaMs / 1000;
            dt = deltaSec * simulationUpdateRate t1;
            t2 = t1\<lparr> deltaTime := dt, lastRegisteredTimestamp := now,
                     currentRegisteredTimestamp := now \<rparr>;
            t3 = t2\<lparr> times := evict (times t2) now @ [now] \<rparr>;
            t4 = t3\<lparr> frameRate := length (times t3) \<rparr>;
            payload = \<lparr> p_now = now, p_deltaTime = deltaTime t4, p_frameRate = frameRate t4,
                        p_lastRegisteredTimestamp = lastRegisteredTimestamp t4,
                        p_simulationUpdateRate = simulationUpdateRate t4 \<rparr>
        in t4\<lparr> outlog := outlog t4 @ map (\<lambda>fn. CallUpdate fn payload) (ev_update (events t4)) \<rparr>)"

definition Start :: "thread \<Rightarrow> int \<Rightarrow> thread" where
  "Start t now =
     (if isActive t then t\<lparr> outlog := outlog t @ [Diag Warning THREAD_ALREADY_ACTIVE] \<rparr>
      else
        let t1 = t\<lparr> isActive := True, startTimestamp := now \<rparr>;
            t2 = t1\<lparr> lastRegisteredTimestamp := startTimestamp t1,
                     currentRegisteredTimestamp := startTimestamp t1,
                     times := [], frameRate := 0 \<rparr>;
            t3 = t2\<lparr> outlog := outlog t2 @ map CallStart (ev_start (events t2)) \<rparr>
        in requestAnimationFrame t3)"

definition Stop :: "thread \<Rightarrow> thread" where
  "Stop t =
     (if \<not> isActive t then t\<lparr> outlog := outlog t @ [Diag Warning THREAD_ALREADY_INACTIVE] \<rparr>
      else
        let t1 = t\<lparr> isActive := False \<rparr>;
            t2 = (if animationFrame t1 \<noteq> 0
                  then t1\<lparr> outlog := outlog t1 @ [CancelAnimationFrame (animationFrame t1)],
                           animationFrame := 0 \<rparr>
                  else t1);
            t3 = t2\<lparr> outlog := outlog t2 @ map CallStop (ev_stop (events t2)) \<rparr>
        in t3\<lparr> outlog := outlog t3 @ map CallIdle (ev_idle (events t3)) \<rparr>)"

definition SetSimulationUpdateRate :: "thread \<Rightarrow> jsnum \<Rightarrow> thread" where
  "SetSimulationUpdateRate t rate =
     (if \<not> isFinite rate \<or> js_le_zero rate
      then t\<lparr> outlog := outlog t @ [Diag Error THREAD_INVALID_SIMULATION_UPDATE_RATE] \<rparr>
      else (case rate of Fin x \<Rightarrow> t\<lparr> simulationUpdateRate := x \<rparr> | _ \<Rightarrow> t))"

definition SetMaxDeltaMs :: "thread \<Rightarrow> jsnum \<Rightarrow> thread" where
  "SetMaxDeltaMs t ms =
     (if \<not> isFinite ms \<or> js_le_zero ms
      then t\<lparr> outlog := outlog t @ [Diag Error THREAD_INVALID_DELTA_TIME] \<rparr>
      else (case ms of Fin x \<Rightarrow> t\<lparr> maxDeltaMs := x \<rparr> | _ \<Rightarrow> t))"

text \<open>A run of ticks: \<^verbatim>\<open>loop\<close> called once for each reading of the clock, in order.\<close>

fun ticks :: "thread \<Rightarrow> int list \<Rightarrow> thread" where
  "ticks t [] = t"
| "ticks t (now # nows) = ticks (loop t now) nows"

section \<open>The graphics device as seen by the renderer\<close>

text \<open>
  Objects handed out by the platform (textures, views, encoders, passes, buffers, bind
  groups) are identified by handles; the platform hands out a handle it has not used before.
  Every call the code makes on the platform, and every call of a Renderable's method, is
  recorded in order, with its arguments; whether the platform accepts the arguments is not
  part of the record. The contents of buffers are kept, as lists of bytes.
\<close>

type_synonym handle = nat

type_synonym byte = "8 word"

type_synonym f32 = "32 word"

datatype js_error = TypeError | InitializeRejected | RenderRejected | DeviceRequestRejected

record color_attachment =
  ca_view :: "handle option"
  ca_resolveTarget :: "handle option"
  ca_clearValue :: "real \<times> real \<times> real \<times> real"

datatype gpu_op =
    TextureDestroy handle
  | CreateTexture handle int int "string option" real
  | CreateTextureView handle handle
  | GetCurrentTextureView handle handle
  | ContextConfigure handle handle
  | CreateCommandEncoder handle
  | BeginRenderPass handle handle color_attachment "handle option"
  | PassEnd handle
  | EncoderFinish handle handle
  | QueueSubmit handle handle
  | SetBindGroup handle nat "handle option"
  | CreateBuffer handle nat
  | WriteBuffer handle nat "byte list"
  | CreateBindGroupLayout handle
  | CreateBindGroup handle "handle option" handle
  | RenderableInitialize nat real
  | RenderableRender nat handle

record world =
  fresh :: handle
  ops :: "gpu_op list"
  diags :: "diag list"
  buffers :: "handle \<rightharpoonup> byte list"

definition new_handle :: "world \<Rightarrow> handle \<times> world" where
  "new_handle w = (fresh w, w\<lparr> fresh := Suc (fresh w) \<rparr>)"

definition emit :: "gpu_op \<Rightarrow> world \<Rightarrow> world" where
  "emit x w = w\<lparr> ops := ops w @ [x] \<rparr>"

definition report :: "level \<Rightarrow> code \<Rightarrow> world \<Rightarrow> world" where
  "report l c w = w\<lparr> diags := diags w @ [(l, c)] \<rparr>"

record gpu_texture =
  tex_id :: handle
  tex_width :: int
  tex_height :: int
  tex_format :: "string option"
  tex_sampleCount :: real

text \<open>\<^verbatim>\<open>device.createTexture({ size: { width, height }, format, sampleCount, ... })\<close>\<close>

definition createTexture ::
  "int \<Rightarrow> int \<Rightarrow> string option \<Rightarrow> real \<Rightarrow> world \<Rightarrow> gpu_texture \<times> world" where
  "createTexture wd ht fmt sc w =
     (case new_handle w of (h, w1) \<Rightarrow>
        (\<lparr> tex_id = h, tex_width = wd, tex_height = ht, tex_format = fmt,
           tex_sampleCount = sc \<rparr>,
         emit (CreateTexture h wd ht fmt sc) w1))"

text \<open>\<^verbatim>\<open>texture.createView()\<close>\<close>

definition createView :: "gpu_texture \<Rightarrow> world \<Rightarrow> handle \<times> world" where
  "createView t w =
     (case new_handle w of (h, w1) \<Rightarrow> (h, emit (CreateTextureView h (tex_id t)) w1))"

text \<open>\<^verbatim>\<open>texture?.destroy()\<close> and \<^verbatim>\<open>texture && texture.destroy()\<close>\<close>

definition destroyIfPresent :: "gpu_texture option \<Rightarrow> world \<Rightarrow> world" where
  "destroyIfPresent t w = (case t of None \<Rightarrow> w | Some x \<Rightarrow> emit (TextureDestroy (tex_id x)) w)"

text \<open>\<^verbatim>\<open>context.getCurrentTexture().createView()\<close>\<close>

definition getCurrentTextureView :: "handle \<Rightarrow> world \<Rightarrow> handle \<times> world" where
  "getCurrentTextureView ctx w =
     (case new_handle w of (h, w1) \<Rightarrow> (h, emit (GetCurrentTextureView h ctx) w1))"

definition createCommandEncoder :: "world \<Rightarrow> handle \<times> world" where
  "createCommandEncoder w =
     (case new_handle w of (h, w1) \<Rightarrow> (h, emit (CreateCommandEncoder h) w1))"

definition beginRenderPass ::
  "handle \<Rightarrow> color_attachment \<Rightarrow> handle option \<Rightarrow> world \<Rightarrow> handle \<times> world" where
  "beginRenderPass enc ca depth w =
     (case new_handle w of (h, w1) \<Rightarrow> (h, emit (BeginRenderPass h enc ca depth) w1))"

text \<open>\<^verbatim>\<open>device.createBuffer({ size, ... })\<close>: a new buffer is filled with zeros.\<close>

definition createBuffer :: "nat \<Rightarrow> world \<Rightarrow> handle \<times> world" where
  "createBuffer n w =
     (case new_handle w of (h, w1) \<Rightarrow>
        (h, emit (CreateBuffer h n) (w1\<lparr> buffers := (buffers w1)(h \<mapsto> replicate n 0) \<rparr>)))"

text \<open>
  \<^verbatim>\<open>queue.writeBuffer(buffer, offset, data)\<close> copies all of \<open>data\<close> into the buffer at the
  offset; a write that does not fit in the buffer is refused by the platform and leaves the
  contents as they are.
\<close>

definition writeBuffer :: "handle \<Rightarrow> nat \<Rightarrow> byte list \<Rightarrow> world \<Rightarrow> world" where
  "writeBuffer b off data w =
     (let w1 = emit (WriteBuffer b off data) w
      in case buffers w1 b of
           None \<Rightarrow> w1
         | Some bs \<Rightarrow>
             if off + length data \<le> length bs
             then w1\<lparr> buffers := (buffers w1)(b \<mapsto> take off bs @ data @ drop (off + length data) bs) \<rparr>
             else w1)"

section \<open>WebGPURenderer\<close>

text \<open>
  The options are a \<^verbatim>\<open>Partial<WebGPURendererOptions>\<close>: every field may be absent. Only the
  fields read by the methods below are kept.
\<close>

record options =
  canvasWidth :: "real option"
  canvasHeight :: "real option"
  opt_format :: "string option"
  msaaSampleCount :: "real option"
  clearColor :: "(real \<times> real \<times> real \<times> real) option"
  opt_devicePixelRatio :: "real option"

record gpu_device =
  dev_id :: handle
  queue :: "handle option"

text \<open>
  The canvas element (\<^verbatim>\<open>document.createElement("canvas")\<close>), as the attributes the
  renderer writes and reads. Its \<^verbatim>\<open>width\<close> and \<^verbatim>\<open>height\<close> are integers of the browser: see
  \<open>canvasSize\<close> below for what is read back after a number is written.
\<close>

record canvas =
  canvas_width :: int
  canvas_height :: int
  clientWidth :: "real option"
  clientHeight :: "real option"

text \<open>What the renderer asks of the browser.\<close>

record platform =
  window_devicePixelRatio :: real
  navigator_gpu :: bool
  adapter_available :: bool
  device_available :: bool
  context_available :: bool
  preferredCanvasFormat :: string
  canvas_clientWidth :: "real option"
  canvas_clientHeight :: "real option"

text \<open>
  The fields of class \<^verbatim>\<open>WebGPURenderer\<close>. A field declared without a value is absent
  (\<open>None\<close>) until it is assigned. The field \<^verbatim>\<open>context\<close> is \<open>canvasContext\<close> here, and the
  options \<^verbatim>\<open>format\<close> and \<^verbatim>\<open>devicePixelRatio\<close> are \<open>opt_format\<close> and
  \<open>opt_devicePixelRatio\<close>, apart from the renderer's fields of the same names.
\<close>

record renderer =
  width :: real
  height :: real
  devicePixelRatio :: real
  msaaTexture :: "gpu_texture option"
  depthTexture :: "gpu_texture option"
  msaaTextureView :: "handle option"
  depthTextureView :: "handle option"
  hasInitialized :: bool
  gpuDevice :: "gpu_device option"
  canvasContext :: "handle option"
  format :: "string option"
  canvas :: canvas
  options :: options

text \<open>
  \<^verbatim>\<open>x | 0\<close> on a finite number: the fraction is dropped (towards zero), and the integer is
  taken modulo \<open>2^32\<close> and read as a signed 32-bit integer.
\<close>

definition toInt32 :: "real \<Rightarrow> int" where
  "toInt32 x =
     ((if 0 \<le> x then \<lfloor>x\<rfloor> else \<lceil>x\<rceil>) + 2147483648) mod 4294967296 - 2147483648"

text \<open>
  Writing a finite number to \<^verbatim>\<open>canvas.width\<close> or \<^verbatim>\<open>canvas.height\<close>. The attribute is an
  unsigned 32-bit integer of the browser, limited to \<open>0 .. 2^31 - 1\<close>: the fraction of the
  number is dropped and the integer taken modulo \<open>2^32\<close>, and a result above \<open>2^31 - 1\<close>
  is replaced by the default of the attribute (300 for the width, 150 for the height).
  \<open>canvasSize\<close> is the value read back.
\<close>

definition toUint32 :: "real \<Rightarrow> int" where
  "toUint32 x = (if 0 \<le> x then \<lfloor>x\<rfloor> else \<lceil>x\<rceil>) mod 4294967296"

definition canvasSize :: "int \<Rightarrow> real \<Rightarrow> int" where
  "canvasSize dflt x = (let u = toUint32 x in if u \<le> 2147483647 then u else dflt)"

text \<open>\<^verbatim>\<open>window.devicePixelRatio || 1\<close>\<close>

definition platformRatio :: "platform \<Rightarrow> real" where
  "platformRatio P = (if window_devicePixelRatio P = 0 then 1 else window_devicePixelRatio P)"

text \<open>The constructor, with the options it is given.\<close>

definition new_WebGPURenderer :: "platform \<Rightarrow> options \<Rightarrow> renderer" where
  "new_WebGPURenderer P opts =
     \<lparr> width = 0, height = 0, devicePixelRatio = platformRatio P,
       msaaTexture = None, depthTexture = None, msaaTextureView = None,
       depthTextureView = None, hasInitialized = False, gpuDevice = None,
       canvasContext = None, format = None,
       canvas = \<lparr> canvas_width =
                    canvasSize 300 (case canvasWidth opts of Some v \<Rightarrow> v | None \<Rightarrow> 800),
                  canvas_height =
                    canvasSize 150 (case canvasHeight opts of Some v \<Rightarrow> v | None \<Rightarrow> 600),
                  clientWidth = canvas_clientWidth P, clientHeight = canvas_clientHeight P \<rparr>,
       options = opts \<rparr>"

definition getMsaa :: "renderer \<Rightarrow> real" where
  "getMsaa r =
     (let n = (case msaaSampleCount (options r) of Some v \<Rightarrow> v | None \<Rightarrow> 1)
      in if n = 1 \<or> n = 2 \<or> n = 4 \<or> n = 8 then n else 1)"

definition createOrResizeTargets :: "renderer \<times> world \<Rightarrow> renderer \<times> world" where
  "createOrResizeTargets s =
     (case s of (r, w) \<Rightarrow>
        let w1 = destroyIfPresent (depthTexture r) w;
            w2 = destroyIfPresent (msaaTexture r) w1
        in case gpuDevice r of
             None \<Rightarrow> (r, w2)
           | Some dev \<Rightarrow>
               let wd = max 1 (toInt32 (width r));
                   ht = max 1 (toInt32 (height r));
                   msaa = getMsaa r
               in case createTexture wd ht (Some ''depth24plus'') msaa w2 of (dt, w3) \<Rightarrow>
                  case createView dt w3 of (dv, w4) \<Rightarrow>
                    let r1 = r\<lparr> depthTexture := Some dt, depthTextureView := Some dv \<rparr>
                    in if msaa > 1
                       then case createTexture wd ht (format r1) msaa w4 of (mt, w5) \<Rightarrow>
                            case createView mt w5 of (mv, w6) \<Rightarrow>
                              (r1\<lparr> msaaTexture := Some mt, msaaTextureView := Some mv \<rparr>, w6)
                       else (r1\<lparr> msaaTexture := None, msaaTextureView := None \<rparr>, w4))"

text \<open>\<^verbatim>\<open>SetSize(width, height)\<close>; the logical sizes are finite numbers.\<close>

definition SetSize :: "real \<Rightarrow> real \<Rightarrow> renderer \<times> world \<Rightarrow> renderer \<times> world" where
  "SetSize wd ht s =
     (case s of (r, w) \<Rightarrow>
        let c = (canvas r)\<lparr> canvas_width :=
                              canvasSize 300 (max 1 (real_of_int \<lfloor>wd * devicePixelRatio r\<rfloor>)),
                            canvas_height :=
                              canvasSize 150 (max 1 (real_of_int \<lfloor>ht * devicePixelRatio r\<rfloor>)) \<rparr>;
            r1 = r\<lparr> canvas := c \<rparr>;
            r2 = r1\<lparr> width := real_of_int (canvas_width (canvas r1)),
                     height := real_of_int (canvas_height (canvas r1)) \<rparr>
        in createOrResizeTargets (r2, w))"

text \<open>\<^verbatim>\<open>applySizeChanges()\<close>\<close>

definition applySizeChanges :: "renderer \<times> world \<Rightarrow> renderer \<times> world" where
  "applySizeChanges s =
     (case s of (r, w) \<Rightarrow>
        let wd = (case canvasWidth (options r) of
                    Some v \<Rightarrow> v
                  | None \<Rightarrow> (case clientWidth (canvas r) of Some v \<Rightarrow> v | None \<Rightarrow> 800));
            ht = (case canvasHeight (options r) of
                    Some v \<Rightarrow> v
                  | None \<Rightarrow> (case clientHeight (canvas r) of Some v \<Rightarrow> v | None \<Rightarrow> 600))
        in SetSize wd ht (r, w))"

text \<open>
  \<^verbatim>\<open>SetDevicePixelRatio(ratio)\<close>; the result says whether the renderer was returned
  (\<open>True\<close>) or \<^verbatim>\<open>null\<close>.
\<close>

definition SetDevicePixelRatio ::
  "platform \<Rightarrow> real \<Rightarrow> renderer \<times> world \<Rightarrow> bool \<times> renderer \<times> world" where
  "SetDevicePixelRatio P ratio s =
     (case s of (r, w) \<Rightarrow>
        let w1 = (if ratio \<ge> 2 then report Warning WGPUR_HIGH_DPR_VALUE w else w);
            w2 = (if ratio \<ge> 10 then report Warning WGPUR_HIGH_DPR_VALUE w1 else w1)
        in if ratio \<le> 0
           then (False, (r\<lparr> devicePixelRatio := platformRatio P \<rparr>,
                         report Error WGPUR_INVALID_DPR_VALUE w2))
           else (True, applySizeChanges
                         (r\<lparr> devicePixelRatio := max 1 (min (if ratio = 0 then 1 else ratio) 100) \<rparr>,
                          w2)))"

text \<open>\<^verbatim>\<open>configureContext()\<close>\<close>

definition configureContext :: "renderer \<times> world \<Rightarrow> renderer \<times> world" where
  "configureContext s =
     (case s of (r, w) \<Rightarrow>
        case gpuDevice r of
          None \<Rightarrow> (r, report Error WGPUR_DEVICE_UNDEFINED w)
        | Some dev \<Rightarrow>
            (case canvasContext r of
               None \<Rightarrow> (r, report Error WGPUR_CONTEXT_UNDEFINED w)
             | Some ctx \<Rightarrow> (r, report Info NoCode (emit (ContextConfigure ctx (dev_id dev)) w))))"

text \<open>
  \<^verbatim>\<open>Initialize()\<close>, with the answers of the browser taken from the platform. The result
  is an error when the device request is rejected, and otherwise says whether the renderer
  was returned (\<open>True\<close>) or \<^verbatim>\<open>null\<close>.
\<close>

definition Initialize ::
  "platform \<Rightarrow> renderer \<times> world \<Rightarrow> (js_error + bool) \<times> renderer \<times> world" where
  "Initialize P s =
     (case s of (r, w) \<Rightarrow>
        if \<not> navigator_gpu P then (Inr False, (r, report Error WGPUR_API_NOT_SUPPORTED w))
        else
          let w1 = report Info NoCode w
          in if \<not> adapter_available P
             then (Inr False, (r, report Error WGPUR_UNABLE_TO_GET_ADAPTER w1))
             else
               let w2 = report Info NoCode w1
               in if \<not> device_available P then (Inl DeviceRequestRejected, (r, w2))
                  else
                    case new_handle w2 of (d, w3) \<Rightarrow>
                    case new_handle w3 of (q, w4) \<Rightarrow>
                    case (if context_available P
                          then (case new_handle w4 of (c, w5) \<Rightarrow> (Some c, w5))
                          else (None, w4)) of (ctx, w6) \<Rightarrow>
                    let r1 = r\<lparr> gpuDevice := Some \<lparr> dev_id = d, queue = Some q \<rparr>,
                               canvasContext := ctx,
                               format := Some (case opt_format (options r) of
                                                 Some f \<Rightarrow> f
                                               | None \<Rightarrow> preferredCanvasFormat P) \<rparr>
                    in case configureContext (r1, w6) of (r2, w7) \<Rightarrow>
                       case SetDevicePixelRatio P
                              (case opt_devicePixelRatio (options r2) of
                                 Some v \<Rightarrow> v
                               | None \<Rightarrow> platformRatio P) (r2, w7) of (b, s8) \<Rightarrow>
                       case applySizeChanges s8 of (r9, w9) \<Rightarrow>
                         (Inr True, (r9\<lparr> hasInitialized := True \<rparr>, w9)))"

record frame_info =
  fi_encoder :: handle
  fi_pass :: handle
  fi_colorView :: handle

text \<open>
  \<^verbatim>\<open>BeginFrame()\<close>. Reading a member of an absent \<^verbatim>\<open>context\<close> or \<^verbatim>\<open>gpuDevice\<close> throws a
  TypeError; what was done before the throw stays done. \<open>frameMsaa\<close> is the sample count
  this method computes for itself.
\<close>

definition frameMsaa :: "renderer \<Rightarrow> real" where
  "frameMsaa r = max 1 (case msaaSampleCount (options r) of Some v \<Rightarrow> v | None \<Rightarrow> 1)"

definition BeginFrame :: "renderer \<times> world \<Rightarrow> (js_error + frame_info) \<times> renderer \<times> world" where
  "BeginFrame s =
     (case s of (r, w) \<Rightarrow>
        let clear = (case clearColor (options r) of Some c \<Rightarrow> c | None \<Rightarrow> (0, 0, 0, 1))
        in case canvasContext r of
             None \<Rightarrow> (Inl TypeError, (r, w))
           | Some ctx \<Rightarrow>
               case getCurrentTextureView ctx w of (currentTextureView, w1) \<Rightarrow>
               case gpuDevice r of
                 None \<Rightarrow> (Inl TypeError, (r, w1))
               | Some dev \<Rightarrow>
                   case createCommandEncoder w1 of (encoder, w2) \<Rightarrow>
                   let msaa = frameMsaa r in
                   case (if depthTextureView r = None then createOrResizeTargets (r, w2)
                         else (r, w2)) of (r3, w3) \<Rightarrow>
                   case (if msaa > 1 \<and> msaaTextureView r3 = None
                         then createOrResizeTargets (r3, w3) else (r3, w3)) of (r4, w4) \<Rightarrow>
                   let colorAttachment =
                         (if msaa > 1
                          then \<lparr> ca_view = msaaTextureView r4,
                                 ca_resolveTarget = Some currentTextureView,
                                 ca_clearValue = clear \<rparr>
                          else \<lparr> ca_view = Some currentTextureView,
                                 ca_resolveTarget = None,
                                 ca_clearValue = clear \<rparr>)
                   in case beginRenderPass encoder colorAttachment (depthTextureView r4) w4 of
                        (pass, w5) \<Rightarrow>
                          (Inr \<lparr> fi_encoder = encoder, fi_pass = pass,
                                 fi_colorView = currentTextureView \<rparr>, (r4, w5)))"

text \<open>\<^verbatim>\<open>EndFrame(frameInfo)\<close>\<close>

definition EndFrame :: "frame_info \<Rightarrow> renderer \<times> world \<Rightarrow> js_error option \<times> renderer \<times> world" where
  "EndFrame fi s =
     (case s of (r, w) \<Rightarrow>
        let w1 = emit (PassEnd (fi_pass fi)) w
        in case gpuDevice r of
             None \<Rightarrow> (Some TypeError, (r, w1))
           | Some dev \<Rightarrow>
               (case queue dev of
                  None \<Rightarrow> (Some TypeError, (r, w1))
                | Some q \<Rightarrow>
                    (case new_handle w1 of (cb, w2) \<Rightarrow>
                       (None, (r, emit (QueueSubmit q cb)
                                    (emit (EncoderFinish (fi_encoder fi) cb) w2))))))"

section \<open>Camera\<close>

text \<open>
  The matrices are \<^verbatim>\<open>Float32Array\<close>s: lists of 32-bit patterns. The functions of the
  matrix library the camera calls, and the rounding of a number stored into a
  \<^verbatim>\<open>Float32Array\<close>, are parameters of the camera's methods.
\<close>

record glmatrix =
  fround :: "real \<Rightarrow> f32"
  lookAt :: "f32 list \<Rightarrow> f32 list \<Rightarrow> f32 list \<Rightarrow> f32 list"
  perspective :: "real \<Rightarrow> real \<Rightarrow> real \<Rightarrow> real \<Rightarrow> f32 list"
  multiply :: "f32 list \<Rightarrow> f32 list \<Rightarrow> f32 list"
  toRadian :: "real \<Rightarrow> real"

type_synonym vector3 = "real \<times> real \<times> real"

text \<open>The fields of \<^verbatim>\<open>Camera\<close> and of its subclass \<^verbatim>\<open>PerspectiveCamera\<close>.\<close>

record camera =
  position :: vector3
  target :: vector3
  up :: vector3
  aspect :: real
  fieldOfViewDegrees :: real
  near :: real
  far :: real
  view :: "f32 list"
  projection :: "f32 list"
  viewProjection :: "f32 list"
  uniformBuffer :: "handle option"
  bindGroup :: "handle option"
  bindGroupLayout :: "handle option"

text \<open>\<^verbatim>\<open>vec3.fromValues(x, y, z)\<close>\<close>

definition fromValues :: "glmatrix \<Rightarrow> vector3 \<Rightarrow> f32 list" where
  "fromValues G v = (case v of (x, y, z) \<Rightarrow> [fround G x, fround G y, fround G z])"

text \<open>
  The bytes of a \<^verbatim>\<open>Float32Array\<close>: four bytes for each element, lowest byte first (the
  byte order of the machines the browser runs on).
\<close>

definition f32_bytes :: "f32 \<Rightarrow> byte list" where
  "f32_bytes x = [ucast x, ucast (drop_bit 8 x), ucast (drop_bit 16 x), ucast (drop_bit 24 x)]"

definition array_bytes :: "f32 list \<Rightarrow> byte list" where
  "array_bytes xs = concat (map f32_bytes xs)"

definition updateProjection :: "glmatrix \<Rightarrow> camera \<Rightarrow> camera" where
  "updateProjection G c =
     c\<lparr> projection := perspective G (toRadian G (fieldOfViewDegrees c)) (aspect c) (near c) (far c) \<rparr>"

definition updateMatrices :: "glmatrix \<Rightarrow> camera \<Rightarrow> camera" where
  "updateMatrices G c =
     (let c1 = c\<lparr> view := lookAt G (fromValues G (position c)) (fromValues G (target c))
                            (fromValues G (up c)) \<rparr>;
          c2 = updateProjection G c1
      in c2\<lparr> viewProjection := multiply G (projection c2) (view c2) \<rparr>)"

text \<open>\<^verbatim>\<open>mat4.create()\<close>: the identity matrix, \<open>0x3F800000\<close> being the pattern of 1.\<close>

definition mat4_create :: "f32 list" where
  "mat4_create =
     [0x3F800000, 0, 0, 0,  0, 0x3F800000, 0, 0,  0, 0, 0x3F800000, 0,  0, 0, 0, 0x3F800000]"

text \<open>The constructor of \<^verbatim>\<open>PerspectiveCamera\<close>, with its four arguments.\<close>

definition new_PerspectiveCamera :: "glmatrix \<Rightarrow> real \<Rightarrow> real \<Rightarrow> real \<Rightarrow> real \<Rightarrow> camera" where
  "new_PerspectiveCamera G fov asp n f =
     updateMatrices G
       \<lparr> position = (0, 0, 0), target = (0, 0, 0), up = (0, 1, 0), aspect = asp,
         fieldOfViewDegrees = fov, near = n, far = f,
         view = mat4_create, projection = mat4_create, viewProjection = mat4_create,
         uniformBuffer = None, bindGroup = None, bindGroupLayout = None \<rparr>"

text \<open>\<^verbatim>\<open>SetPosition(x)\<close> called with a \<^verbatim>\<open>Vector3\<close>.\<close>

definition SetPosition :: "glmatrix \<Rightarrow> vector3 \<Rightarrow> camera \<Rightarrow> camera" where
  "SetPosition G v c = updateMatrices G (c\<lparr> position := v \<rparr>)"

text \<open>
  The matrix library keeps a 4x4 matrix as an array of 16 numbers, column after column: the
  entry in row \<open>i\<close> and column \<open>j\<close> (both counted from 0) is element \<open>4 * j + i\<close>.
\<close>

definition mat4_at :: "f32 list \<Rightarrow> nat \<Rightarrow> nat \<Rightarrow> f32" where
  "mat4_at m i j = m ! (4 * j + i)"

text \<open>\<^verbatim>\<open>CreateUniformBuffer(device)\<close>; the device may be absent, and using it then throws.\<close>

definition CreateUniformBuffer ::
  "gpu_device option \<Rightarrow> camera \<Rightarrow> world \<Rightarrow> (js_error + handle) \<times> camera \<times> world" where
  "CreateUniformBuffer dev c w =
     (case uniformBuffer c of
        Some b \<Rightarrow> (Inr b, c, w)
      | None \<Rightarrow>
          (case dev of
             None \<Rightarrow> (Inl TypeError, c, w)
           | Some d \<Rightarrow>
               (case createBuffer 80 w of (b, w1) \<Rightarrow> (Inr b, c\<lparr> uniformBuffer := Some b \<rparr>, w1))))"

definition WriteUniformsToQueue :: "glmatrix \<Rightarrow> camera \<Rightarrow> world \<Rightarrow> world" where
  "WriteUniformsToQueue G c w =
     (case uniformBuffer c of
        None \<Rightarrow> report Error CAM_UNIFORM_BUFFER_UNDEFINED w
      | Some b \<Rightarrow>
          let positionArrayBuffer = fromValues G (position c);
              w1 = writeBuffer b 0 (array_bytes (viewProjection c)) w
          in writeBuffer b 64 (array_bytes positionArrayBuffer) w1)"

definition EnsureBinding ::
  "glmatrix \<Rightarrow> gpu_device option \<Rightarrow> camera \<Rightarrow> world \<Rightarrow> js_error option \<times> camera \<times> world" where
  "EnsureBinding G dev c w =
     (case (if bindGroupLayout c = None
            then (case dev of
                    None \<Rightarrow> (Some TypeError, c, w)
                  | Some d \<Rightarrow>
                      (case new_handle w of (l, w1) \<Rightarrow>
                         (None, c\<lparr> bindGroupLayout := Some l \<rparr>, emit (CreateBindGroupLayout l) w1)))
            else (None, c, w)) of
        (Some e, c1, w1) \<Rightarrow> (Some e, c1, w1)
      | (None, c1, w1) \<Rightarrow>
          (case (if bindGroup c1 = None
                 then (case CreateUniformBuffer dev c1 w1 of
                         (Inl e, c2, w2) \<Rightarrow> (Some e, c2, w2)
                       | (Inr b, c2, w2) \<Rightarrow>
                           (case dev of
                              None \<Rightarrow> (Some TypeError, c2, w2)
                            | Some d \<Rightarrow>
                                (case new_handle w2 of (g, w3) \<Rightarrow>
                                   (None, c2\<lparr> bindGroup := Some g \<rparr>,
                                    emit (CreateBindGroup g (bindGroupLayout c2) b) w3))))
                 else (None, c1, w1)) of
             (Some e, c3, w3) \<Rightarrow> (Some e, c3, w3)
           | (None, c3, w3) \<Rightarrow> (None, updateMatrices G c3, w3)))"

section \<open>WebGPURendererScene\<close>

text \<open>
  \<^verbatim>\<open>Renderable\<close> is abstract. A renderable is identified by a number; \<open>initialize_ok\<close> says,
  for the sample count it is given, whether its \<^verbatim>\<open>Initialize\<close> returns (or throws, as
  \<^verbatim>\<open>SimpleTriangle\<close> does when the pipeline is not valid), and \<open>render_ok\<close> whether its
  \<^verbatim>\<open>Render\<close> returns (or throws, as that of a \<^verbatim>\<open>SimpleTriangle\<close> does when it has no
  pipeline because its \<^verbatim>\<open>Initialize\<close> was never run). Calls of \<^verbatim>\<open>Initialize\<close> and
  \<^verbatim>\<open>Render\<close> are recorded.
\<close>

record renderable =
  rend_id :: nat
  isRenderable :: bool
  initialize_ok :: "real \<Rightarrow> bool"
  render_ok :: bool

record scene =
  rendererables :: "renderable list"
  hasPrepared :: bool

definition new_Scene :: scene where
  "new_Scene = \<lparr> rendererables = [], hasPrepared = False \<rparr>"

definition AddRenderable :: "scene \<Rightarrow> renderable \<Rightarrow> scene" where
  "AddRenderable s x =
     (if isRenderable x then s\<lparr> rendererables := rendererables s @ [x] \<rparr> else s)"

text \<open>
  The loop of \<^verbatim>\<open>Prepare\<close>: each \<^verbatim>\<open>Initialize\<close> is awaited before the next one is
  called, and the first one that throws ends the loop.
\<close>

fun initializeAll :: "renderable list \<Rightarrow> real \<Rightarrow> world \<Rightarrow> js_error option \<times> world" where
  "initializeAll [] sc w = (None, w)"
| "initializeAll (x # xs) sc w =
     (let w1 = emit (RenderableInitialize (rend_id x) sc) w
      in if initialize_ok x sc then initializeAll xs sc w1 else (Some InitializeRejected, w1))"

text \<open>The sample count \<^verbatim>\<open>Prepare\<close> hands to every \<^verbatim>\<open>Initialize\<close>.\<close>

definition prepareSampleCount :: "renderer \<Rightarrow> real" where
  "prepareSampleCount r = (case msaaSampleCount (options r) of Some v \<Rightarrow> v | None \<Rightarrow> 1)"

definition Prepare ::
  "glmatrix \<Rightarrow> renderer \<Rightarrow> scene \<times> camera \<times> world \<Rightarrow> js_error option \<times> scene \<times> camera \<times> world" where
  "Prepare G r st =
     (case st of (s, cam, w) \<Rightarrow>
        if \<not> hasInitialized r
        then (None, (s, cam, report Error WGPURSCENE_RENDERER_NOT_INITIALIZED w))
        else
          (case initializeAll (rendererables s) (prepareSampleCount r) w of
             (Some e, w1) \<Rightarrow> (Some e, (s, cam, w1))
           | (None, w1) \<Rightarrow>
               (case EnsureBinding G (gpuDevice r) cam w1 of
                  (Some e, cam1, w2) \<Rightarrow> (Some e, (s, cam1, w2))
                | (None, cam1, w2) \<Rightarrow>
                    (None, (s\<lparr> hasPrepared := True \<rparr>, cam1, report Info NoCode w2)))))"

text \<open>
  The sample count \<^verbatim>\<open>SimpleTriangle.Initialize\<close> gives to its pipeline:
  \<^verbatim>\<open>Math.max(1, sampleCount | 0)\<close>.
\<close>

definition pipelineSampleCount :: "real \<Rightarrow> int" where
  "pipelineSampleCount sampleCount = max 1 (toInt32 sampleCount)"

section \<open>Rendering a scene\<close>

text \<open>
  The loop of \<^verbatim>\<open>Render\<close> over \<^verbatim>\<open>scene.rendererables\<close>, from index 0 upwards. Nothing
  catches what a renderable's \<^verbatim>\<open>Render\<close> throws: the first one that throws ends the loop.
\<close>

fun renderAll :: "renderable list \<Rightarrow> handle \<Rightarrow> world \<Rightarrow> js_error option \<times> world" where
  "renderAll [] pass w = (None, w)"
| "renderAll (x # xs) pass w =
     (let w1 = emit (RenderableRender (rend_id x) pass) w
      in if render_ok x then renderAll xs pass w1 else (Some RenderRejected, w1))"

definition Render ::
  "glmatrix \<Rightarrow> scene \<Rightarrow> camera \<Rightarrow> renderer \<times> world \<Rightarrow> js_error option \<times> renderer \<times> world" where
  "Render G scene cam s =
     (case s of (r, w) \<Rightarrow>
        if \<not> hasPrepared scene then (None, (r, report Error WGPUR_SCENE_NOT_PREPARED w))
        else
          (case gpuDevice r of
             None \<Rightarrow> (Some TypeError, (r, w))
           | Some dev \<Rightarrow>
               (case queue dev of
                  None \<Rightarrow> (None, (r, w))
                | Some q \<Rightarrow>
                    (let w1 = WriteUniformsToQueue G cam w
                     in case BeginFrame (r, w1) of
                          (Inl e, s1) \<Rightarrow> (Some e, s1)
                        | (Inr frame, (r2, w2)) \<Rightarrow>
                            let w3 = emit (SetBindGroup (fi_pass frame) 0 (bindGroup cam)) w2
                            in case renderAll (rendererables scene) (fi_pass frame) w3 of
                                 (Some e, w4) \<Rightarrow> (Some e, (r2, w4))
                               | (None, w4) \<Rightarrow> EndFrame frame (r2, w4)))))"

text \<open>What a trace says about draws, initialisations and the ends of passes.\<close>

fun draws :: "gpu_op list \<Rightarrow> nat list" where
  "draws [] = []"
| "draws (RenderableRender i p # xs) = i # draws xs"
| "draws (x # xs) = draws xs"

fun initializations :: "gpu_op list \<Rightarrow> (nat \<times> real) list" where
  "initializations [] = []"
| "initializations (RenderableInitialize i sc # xs) = (i, sc) # initializations xs"
| "initializations (x # xs) = initializations xs"

fun ended_passes :: "gpu_op list \<Rightarrow> handle list" where
  "ended_passes [] = []"
| "ended_passes (PassEnd p # xs) = p # ended_passes xs"
| "ended_passes (x # xs) = ended_passes xs"

fun finished_encoders :: "gpu_op list \<Rightarrow> handle list" where
  "finished_encoders [] = []"
| "finished_encoders (EncoderFinish e c # xs) = e # finished_encoders xs"
| "finished_encoders (x # xs) = finished_encoders xs"

fun begun_passes :: "gpu_op list \<Rightarrow> handle list" where
  "begun_passes [] = []"
| "begun_passes (BeginRenderPass p e c d # xs) = p # begun_passes xs"
| "begun_passes (x # xs) = begun_passes xs"

section \<open>A browser, and the objects of the examples\<close>

definition browser :: platform where
  "browser =
     \<lparr> window_devicePixelRatio = 2, navigator_gpu = True, adapter_available = True,
       device_available = True, context_available = True,
       preferredCanvasFormat = ''bgra8unorm'',
       canvas_clientWidth = Some 800, canvas_clientHeight = Some 600 \<rparr>"

definition no_options :: options where
  "no_options =
     \<lparr> canvasWidth = None, canvasHeight = None, opt_format = None, msaaSampleCount = None,
       clearColor = None, opt_devicePixelRatio = None \<rparr>"

definition new_world :: world where
  "new_world = \<lparr> fresh = 0, ops = [], diags = [], buffers = Map.empty \<rparr>"

text \<open>A renderer constructed with the given options and initialized in the browser.\<close>

definition initialized :: "options \<Rightarrow> renderer \<times> world" where
  "initialized opts = snd (Initialize browser (new_WebGPURenderer browser opts, new_world))"

text \<open>
  A stand-in for the matrix library in the examples: every matrix it returns is the
  identity, and a number is stored as the pattern of 0, of 1 or of a quiet NaN. No
  property below depends on what it computes.
\<close>

definition example_gl :: glmatrix where
  "example_gl =
     \<lparr> fround = (\<lambda>x. if x = 0 then 0 else if x = 1 then 0x3F800000 else 0x7FC00000),
       lookAt = (\<lambda>eye center upward. mat4_create),
       perspective = (\<lambda>fovy asp n f. mat4_create),
       multiply = (\<lambda>a b. a),
       toRadian = (\<lambda>d. d / 180) \<rparr>"

definition example_camera :: camera where
  "example_camera = new_PerspectiveCamera example_gl 60 1 (1 / 10) 1000"

text \<open>
  Renderables whose \<^verbatim>\<open>Initialize\<close> accepts the sample counts 1, 2, 4 and 8 and whose
  \<^verbatim>\<open>Render\<close> returns, and one whose \<^verbatim>\<open>Render\<close> throws.
\<close>

definition example_renderable :: "nat \<Rightarrow> renderable" where
  "example_renderable i =
     \<lparr> rend_id = i, isRenderable = True,
       initialize_ok = (\<lambda>sc. sc = 1 \<or> sc = 2 \<or> sc = 4 \<or> sc = 8), render_ok = True \<rparr>"

definition throwing_renderable :: "nat \<Rightarrow> renderable" where
  "throwing_renderable i = (example_renderable i)\<lparr> render_ok := False \<rparr>"

definition example_scene :: scene where
  "example_scene =
     AddRenderable (AddRenderable new_Scene (example_renderable 0)) (example_renderable 1)"

text \<open>
  The example scene prepared with the example camera on the renderer initialized without
  options: the result of \<open>Prepare\<close>, and the scene, the camera and the world after it.
\<close>

definition prepared_example :: "js_error option \<times> scene \<times> camera \<times> world" where
  "prepared_example =
     Prepare example_gl (fst (initialized no_options))
       (example_scene, example_camera, snd (initialized no_options))"

definition prepared_scene :: scene where
  "prepared_scene = fst (snd prepared_example)"

definition prepared_camera :: camera where
  "prepared_camera = fst (snd (snd prepared_example))"

definition prepared_world :: world where
  "prepared_world = snd (snd (snd prepared_example))"

text \<open>
  A browser whose canvas gives no \<^verbatim>\<open>webgpu\<close> context, and the example scene prepared on a
  renderer initialized in it.
\<close>

definition browser_without_context :: platform where
  "browser_without_context = browser\<lparr> context_available := False \<rparr>"

definition initialized_without_context :: "renderer \<times> world" where
  "initialized_without_context =
     snd (Initialize browser_without_context
            (new_WebGPURenderer browser_without_context no_options, new_world))"

definition prepared_without_context :: "js_error option \<times> scene \<times> camera \<times> world" where
  "prepared_without_context =
     Prepare example_gl (fst initialized_without_context)
       (example_scene, example_camera, snd initialized_without_context)"

text \<open>
  The prepared example scene with two more renderables added after \<open>Prepare\<close>: one whose
  \<^verbatim>\<open>Render\<close> throws, and one after it.
\<close>

definition scene_with_thrower :: scene where
  "scene_with_thrower =
     AddRenderable (AddRenderable prepared_scene (throwing_renderable 2)) (example_renderable 3)"

text \<open>
  The prepared example camera moved to (1, 0, 1) and written to its buffer, and then moved
  to (0, 1, 0).
\<close>

definition moved_camera :: camera where
  "moved_camera = SetPosition example_gl (1, 0, 1) prepared_camera"

definition moved_world :: world where
  "moved_world = WriteUniformsToQueue example_gl moved_camera prepared_world"

definition moved_again_camera :: camera where
  "moved_again_camera = SetPosition example_gl (0, 1, 0) moved_camera"

section \<open>Properties of the frame scheduler\<close>

lemma requestAnimationFrame_fields:
  "isActive (requestAnimationFrame t) = isActive t"
  "times (requestAnimationFrame t) = times t"
  "frameRate (requestAnimationFrame t) = frameRate t"
  "lastRegisteredTimestamp (requestAnimationFrame t) = lastRegisteredTimestamp t"
  "maxDeltaMs (requestAnimationFrame t) = maxDeltaMs t"
  "simulationUpdateRate (requestAnimationFrame t) = simulationUpdateRate t"
  "events (requestAnimationFrame t) = events t"
  by (simp_all add: requestAnimationFrame_def Let_def)

lemma loop_active_fields:
  assumes "isActive t"
  shows "isActive (loop t now)"
    and "times (loop t now) = evict (times t) now @ [now]"
    and "frameRate (loop t now) = length (times (loop t now))"
    and "lastRegisteredTimestamp (loop t now) = now"
    and "maxDeltaMs (loop t now) = maxDeltaMs t"
    and "simulationUpdateRate (loop t now) = simulationUpdateRate t"
    and "deltaTime (loop t now) =
           min (real_of_int (now - lastRegisteredTimestamp t)) (maxDeltaMs t) / 1000
             * simulationUpdateRate t"
  using assms by (simp_all add: loop_def Let_def requestAnimationFrame_fields)

lemma Start_idle_fields:
  assumes "\<not> isActive t"
  shows "isActive (Start t now)"
    and "times (Start t now) = []"
    and "frameRate (Start t now) = 0"
    and "lastRegisteredTimestamp (Start t now) = now"
    and "currentRegisteredTimestamp (Start t now) = now"
    and "maxDeltaMs (Start t now) = maxDeltaMs t"
    and "simulationUpdateRate (Start t now) = simulationUpdateRate t"
  using assms by (simp_all add: Start_def Let_def requestAnimationFrame_def)

text \<open>
  On a window in which the timestamps do not decrease, evicting from the front removes
  every entry that is not newer than \<open>now - 1000\<close>.
\<close>

lemma evict_sorted: "sorted xs \<Longrightarrow> evict xs now = filter (\<lambda>x. now - 1000 < x) xs"
proof (induction xs)
  case Nil
  show ?case by simp
next
  case (Cons x xs)
  show ?case
  proof (cases "x \<le> now - 1000")
    case True
    with Cons show ?thesis by simp
  next
    case False
    from Cons.prems have "\<forall>y\<in>set xs. x \<le> y" by simp
    with False have "\<forall>y\<in>set xs. now - 1000 < y" by auto
    then have "filter (\<lambda>x. now - 1000 < x) xs = xs" by (simp add: filter_id_conv)
    with False show ?thesis by simp
  qed
qed

lemma ticks_window:
  "isActive t \<Longrightarrow> sorted (times t @ nows) \<Longrightarrow> nows \<noteq> [] \<Longrightarrow>
     isActive (ticks t nows) \<and>
     times (ticks t nows) = filter (\<lambda>x. last nows - 1000 < x) (times t @ nows) \<and>
     frameRate (ticks t nows) = length (times (ticks t nows))"
proof (induction nows arbitrary: t)
  case Nil
  then show ?case by simp
next
  case (Cons now rest)
  let ?t = "loop t now"
  have act: "isActive ?t" using Cons.prems(1) by (rule loop_active_fields)
  have srt: "sorted (times t)" using Cons.prems(2) by (simp add: sorted_append)
  have tm: "times ?t = filter (\<lambda>x. now - 1000 < x) (times t) @ [now]"
    using Cons.prems(1) srt by (simp add: loop_active_fields evict_sorted)
  show ?case
  proof (cases "rest = []")
    case True
    then show ?thesis using act tm Cons.prems(1) by (simp add: loop_active_fields)
  next
    case False
    have le: "now \<le> last rest"
      using Cons.prems(2) False by (auto simp: sorted_append)
    have s2: "sorted (times ?t @ rest)"
      using Cons.prems(2) unfolding tm
      by (auto simp: sorted_append intro: sorted_filter[of "\<lambda>x. x", simplified])
    from Cons.IH[OF act s2 False]
    have ih: "isActive (ticks ?t rest)"
      "times (ticks ?t rest) = filter (\<lambda>x. last rest - 1000 < x) (times ?t @ rest)"
      "frameRate (ticks ?t rest) = length (times (ticks ?t rest))" by simp_all
    have "filter (\<lambda>x. last rest - 1000 < x) (filter (\<lambda>x. now - 1000 < x) (times t))
          = filter (\<lambda>x. last rest - 1000 < x) (times t)"
      using le by (auto intro: filter_cong)
    then show ?thesis using ih False unfolding tm by simp
  qed
qed

text \<open>
  C6. The constructor sets \<open>maxDeltaMs\<close> to 250. On every tick of an active thread,
  \<open>deltaTime\<close> is the smaller of the raw delta \<open>now - lastRegisteredTimestamp\<close> and
  \<open>maxDeltaMs\<close>, divided by 1000 and multiplied by \<open>simulationUpdateRate\<close>. With the
  default clamp, a gap of 5000 ms gives the \<open>deltaTime\<close> of a gap of 250 ms.
\<close>

theorem loop_deltaTime_clamped:
  "maxDeltaMs (new_Thread c l s) = 250 \<and>
   (isActive t \<longrightarrow>
      deltaTime (loop t now) =
        min (real_of_int (now - lastRegisteredTimestamp t)) (maxDeltaMs t) / 1000
          * simulationUpdateRate t) \<and>
   (isActive t \<and> maxDeltaMs t = 250 \<and> now - lastRegisteredTimestamp t = 5000 \<longrightarrow>
      deltaTime (loop t now) = 250 / 1000 * simulationUpdateRate t)"
proof (intro conjI impI)
  show "maxDeltaMs (new_Thread c l s) = 250" by (simp add: new_Thread_def)
next
  assume "isActive t"
  then show "deltaTime (loop t now) =
        min (real_of_int (now - lastRegisteredTimestamp t)) (maxDeltaMs t) / 1000
          * simulationUpdateRate t"
    by (rule loop_active_fields)
next
  assume a: "isActive t \<and> maxDeltaMs t = 250 \<and> now - lastRegisteredTimestamp t = 5000"
  then have "deltaTime (loop t now) =
        min (real_of_int (now - lastRegisteredTimestamp t)) (maxDeltaMs t) / 1000
          * simulationUpdateRate t"
    by (simp add: loop_active_fields)
  with a show "deltaTime (loop t now) = 250 / 1000 * simulationUpdateRate t" by simp
qed

theorem loop_deltaTime_clamped_witness:
  "isActive (Start (new_Thread 0 0 0) 1000) \<and>
   maxDeltaMs (Start (new_Thread 0 0 0) 1000) = 250 \<and>
   6000 - lastRegisteredTimestamp (Start (new_Thread 0 0 0) 1000) = 5000 \<and>
   deltaTime (loop (Start (new_Thread 0 0 0) 1000) 6000) = 15"
  using loop_deltaTime_clamped [of 0 0 0 "Start (new_Thread 0 0 0) 1000" 6000]
  by (simp add: Start_def new_Thread_def requestAnimationFrame_def Let_def)

lemma ticks_frameRate:
  "isActive t \<Longrightarrow> nows \<noteq> [] \<Longrightarrow>
     isActive (ticks t nows) \<and> frameRate (ticks t nows) = length (times (ticks t nows))"
proof (induction nows arbitrary: t)
  case Nil
  then show ?case by simp
next
  case (Cons now rest)
  have act: "isActive (loop t now)" using Cons.prems(1) by (rule loop_active_fields)
  show ?case
  proof (cases "rest = []")
    case True
    then show ?thesis using Cons.prems(1) by (simp add: loop_active_fields)
  next
    case False
    from Cons.IH[OF act False] show ?thesis by simp
  qed
qed

text \<open>
  C7 (as amended). After every tick of an active thread, \<open>frameRate\<close> is the length of the
  window, and the window is the one before the tick without its leading entries that are
  not newer than \<open>now - 1000\<close>, followed by \<open>now\<close>: eviction stops at the first entry that
  is newer. When the clock readings do not decrease, the window therefore holds exactly
  the timestamps (those already in it and those of the run of ticks) that are newer than
  \<open>now - 1000\<close>, \<open>now\<close> being the last reading; hence, from an empty window, N ticks that
  all lie within the last second give \<open>frameRate = N\<close>.
\<close>

theorem ticks_sliding_window:
  "(isActive t \<longrightarrow>
      times (loop t now) = evict (times t) now @ [now] \<and>
      frameRate (loop t now) = length (times (loop t now))) \<and>
   (isActive t \<and> nows \<noteq> [] \<longrightarrow>
      frameRate (ticks t nows) = length (times (ticks t nows))) \<and>
   (isActive t \<and> sorted (times t @ nows) \<and> nows \<noteq> [] \<longrightarrow>
      times (ticks t nows) = filter (\<lambda>x. last nows - 1000 < x) (times t @ nows) \<and>
      (times t = [] \<and> (\<forall>x\<in>set nows. last nows - 1000 < x) \<longrightarrow>
         frameRate (ticks t nows) = length nows))"
proof (intro conjI impI)
  assume "isActive t"
  then show "times (loop t now) = evict (times t) now @ [now]"
    and "frameRate (loop t now) = length (times (loop t now))"
    by (simp_all add: loop_active_fields)
next
  assume "isActive t \<and> nows \<noteq> []"
  then show "frameRate (ticks t nows) = length (times (ticks t nows))"
    using ticks_frameRate[of t nows] by simp
next
  assume a: "isActive t \<and> sorted (times t @ nows) \<and> nows \<noteq> []"
  then have w: "times (ticks t nows) = filter (\<lambda>x. last nows - 1000 < x) (times t @ nows)"
    and f: "frameRate (ticks t nows) = length (times (ticks t nows))"
    using ticks_window[of t nows] by simp_all
  show "times (ticks t nows) = filter (\<lambda>x. last nows - 1000 < x) (times t @ nows)"
    by (rule w)
  assume b: "times t = [] \<and> (\<forall>x\<in>set nows. last nows - 1000 < x)"
  then have "filter (\<lambda>x. last nows - 1000 < x) (times t @ nows) = nows"
    by (simp add: filter_id_conv)
  then have "times (ticks t nows) = nows" using w by simp
  then show "frameRate (ticks t nows) = length nows" using f by simp
qed

theorem ticks_sliding_window_witness:
  "isActive (Start (new_Thread 0 0 0) 0) \<and>
   sorted (times (Start (new_Thread 0 0 0) 0) @ [100, 400, 900, 1450 :: int]) \<and>
   times (ticks (Start (new_Thread 0 0 0) 0) [100, 400, 900, 1450]) = [900, 1450] \<and>
   frameRate (ticks (Start (new_Thread 0 0 0) 0) [100, 400, 900, 1450]) = 2 \<and>
   frameRate (ticks (Start (new_Thread 0 0 0) 0) [100, 400, 900]) = 3 \<and>
   times (loop (Start (new_Thread 0 0 0) 0) 100) = [100]"
proof -
  let ?t = "Start (new_Thread 0 0 0) 0"
  have i: "\<not> isActive (new_Thread 0 0 0)" by (simp add: new_Thread_def)
  have a: "isActive ?t" and e: "times ?t = []" using i by (simp_all add: Start_idle_fields)
  have s1: "sorted (times ?t @ [100, 400, 900, 1450 :: int])" by (simp add: e)
  have s2: "sorted (times ?t @ [100, 400, 900 :: int])" by (simp add: e)
  from ticks_sliding_window[of ?t 100 "[100, 400, 900, 1450]"]
    ticks_sliding_window[of ?t 100 "[100, 400, 900]"] a s1 s2 e
  show ?thesis by simp
qed

text \<open>
  C7 as stated fails when a reading of the clock is lower than one before it: after the
  readings 100, 900, 50 and 1150 the window still holds 50, which is not newer than
  \<open>1150 - 1000\<close>, behind the newer 900, and the frame rate is 3.
\<close>

theorem ticks_sliding_window_counterexample:
  "times (ticks (Start (new_Thread 0 0 0) 0) [100, 900, 50, 1150]) = [900, 50, 1150] \<and>
   frameRate (ticks (Start (new_Thread 0 0 0) 0) [100, 900, 50, 1150]) = 3 \<and>
   (50 :: int) \<le> 1150 - 1000"
  by (simp add: Start_def new_Thread_def loop_def requestAnimationFrame_def Let_def)

text \<open>
  C9. An argument that is not finite, or finite and not greater than zero, makes
  \<open>SetSimulationUpdateRate\<close> and \<open>SetMaxDeltaMs\<close> report an error and change nothing else;
  a finite argument greater than zero is stored as it is, and nothing is reported.
\<close>

theorem setters_validate:
  "(\<not> isFinite r \<or> (\<exists>x. r = Fin x \<and> x \<le> 0) \<longrightarrow>
      SetSimulationUpdateRate t r =
        t\<lparr> outlog := outlog t @ [Diag Error THREAD_INVALID_SIMULATION_UPDATE_RATE] \<rparr> \<and>
      simulationUpdateRate (SetSimulationUpdateRate t r) = simulationUpdateRate t \<and>
      SetMaxDeltaMs t r = t\<lparr> outlog := outlog t @ [Diag Error THREAD_INVALID_DELTA_TIME] \<rparr> \<and>
      maxDeltaMs (SetMaxDeltaMs t r) = maxDeltaMs t) \<and>
   (0 < y \<longrightarrow>
      SetSimulationUpdateRate t (Fin y) = t\<lparr> simulationUpdateRate := y \<rparr> \<and>
      SetMaxDeltaMs t (Fin y) = t\<lparr> maxDeltaMs := y \<rparr>)"
  by (cases r) (auto simp: SetSimulationUpdateRate_def SetMaxDeltaMs_def)

theorem setters_validate_witness:
  "\<not> isFinite NaN \<and> (0::real) < 144 \<and>
   simulationUpdateRate (SetSimulationUpdateRate (new_Thread 0 0 0) NaN) = 60 \<and>
   outlog (SetSimulationUpdateRate (new_Thread 0 0 0) NaN) =
     [Diag Error THREAD_INVALID_SIMULATION_UPDATE_RATE] \<and>
   maxDeltaMs (SetMaxDeltaMs (new_Thread 0 0 0) NaN) = 250 \<and>
   simulationUpdateRate (SetSimulationUpdateRate (new_Thread 0 0 0) (Fin 144)) = 144 \<and>
   maxDeltaMs (SetMaxDeltaMs (new_Thread 0 0 0) (Fin 144)) = 144"
  using setters_validate [of NaN "new_Thread 0 0 0" 144]
  by (simp add: new_Thread_def)

text \<open>
  C10. \<open>Start\<close> on an idle thread makes it active, empties the window, sets \<open>frameRate\<close>
  to 0 and \<open>lastRegisteredTimestamp\<close> to the current time. So the first tick after it
  reports a frame rate of 1 and a delta measured from the time of \<open>Start\<close>, and after a
  run of ticks (clock readings not decreasing) the window holds ticks of that run only.
\<close>

theorem Start_resets_timing:
  assumes "\<not> isActive t"
  shows "isActive (Start t now) \<and>
         times (Start t now) = [] \<and>
         frameRate (Start t now) = 0 \<and>
         lastRegisteredTimestamp (Start t now) = now \<and>
         frameRate (loop (Start t now) now') = 1 \<and>
         deltaTime (loop (Start t now) now') =
           min (real_of_int (now' - now)) (maxDeltaMs t) / 1000 * simulationUpdateRate t \<and>
         (sorted nows \<and> nows \<noteq> [] \<longrightarrow>
            times (ticks (Start t now) nows) = filter (\<lambda>x. last nows - 1000 < x) nows \<and>
            frameRate (ticks (Start t now) nows) =
              length (filter (\<lambda>x. last nows - 1000 < x) nows))"
proof -
  note st = Start_idle_fields[OF assms]
  have l1: "frameRate (loop (Start t now) now') = 1"
    by (simp add: loop_active_fields[OF st(1)] st(2))
  have l2: "deltaTime (loop (Start t now) now') =
           min (real_of_int (now' - now)) (maxDeltaMs t) / 1000 * simulationUpdateRate t"
    by (simp add: loop_active_fields[OF st(1)] st)
  have l3: "times (ticks (Start t now) nows) = filter (\<lambda>x. last nows - 1000 < x) nows \<and>
       frameRate (ticks (Start t now) nows) = length (filter (\<lambda>x. last nows - 1000 < x) nows)"
    if a: "sorted nows \<and> nows \<noteq> []"
  proof -
    from a have "sorted (times (Start t now) @ nows)" by (simp add: st(2))
    from ticks_window[OF st(1) this] a show ?thesis by (simp add: st(2))
  qed
  from st(1,2,3,4) l1 l2 l3 show ?thesis by blast
qed

theorem Start_resets_timing_witness:
  "\<not> isActive (Stop (ticks (Start (new_Thread 0 0 0) 0) [10, 20, 30])) \<and>
   times (Stop (ticks (Start (new_Thread 0 0 0) 0) [10, 20, 30])) = [10, 20, 30] \<and>
   times (Start (Stop (ticks (Start (new_Thread 0 0 0) 0) [10, 20, 30])) 40) = [] \<and>
   frameRate (Start (Stop (ticks (Start (new_Thread 0 0 0) 0) [10, 20, 30])) 40) = 0 \<and>
   lastRegisteredTimestamp (Start (Stop (ticks (Start (new_Thread 0 0 0) 0) [10, 20, 30])) 40) = 40 \<and>
   frameRate (loop (Start (Stop (ticks (Start (new_Thread 0 0 0) 0) [10, 20, 30])) 40) 56) = 1"
proof -
  let ?a = "Start (new_Thread 0 0 0) 0"
  let ?b = "Stop (ticks ?a [10, 20, 30])"
  have i: "\<not> isActive (new_Thread 0 0 0)" by (simp add: new_Thread_def)
  have a: "isActive ?a" and e: "times ?a = []" using i by (simp_all add: Start_idle_fields)
  have s: "sorted (times ?a @ [10, 20, 30 :: int])" by (simp add: e)
  from ticks_window[OF a s]
  have ta: "isActive (ticks ?a [10, 20, 30])"
    and tt: "times (ticks ?a [10, 20, 30]) = [10, 20, 30]" by (simp_all add: e)
  have na: "\<not> isActive ?b" using ta by (simp add: Stop_def Let_def)
  have tm: "times ?b = [10, 20, 30]" using ta tt by (simp add: Stop_def Let_def)
  from Start_resets_timing[OF na, of 40 56] na tm
  show ?thesis by simp
qed

section \<open>Properties of the renderer\<close>

lemmas world_defs = new_handle_def emit_def report_def createTexture_def createView_def
  destroyIfPresent_def getCurrentTextureView_def createCommandEncoder_def beginRenderPass_def

lemmas init_defs = initialized_def Initialize_def browser_def new_WebGPURenderer_def
  new_world_def no_options_def platformRatio_def configureContext_def SetDevicePixelRatio_def
  applySizeChanges_def SetSize_def createOrResizeTargets_def world_defs Let_def getMsaa_def
  toInt32_def toUint32_def canvasSize_def

lemma draws_append: "draws (xs @ ys) = draws xs @ draws ys"
  by (induction xs rule: draws.induct) simp_all

lemma ended_passes_append: "ended_passes (xs @ ys) = ended_passes xs @ ended_passes ys"
  by (induction xs rule: ended_passes.induct) simp_all

lemma finished_encoders_append:
  "finished_encoders (xs @ ys) = finished_encoders xs @ finished_encoders ys"
  by (induction xs rule: finished_encoders.induct) simp_all

lemma begun_passes_append: "begun_passes (xs @ ys) = begun_passes xs @ begun_passes ys"
  by (induction xs rule: begun_passes.induct) simp_all

lemma initializations_append:
  "initializations (xs @ ys) = initializations xs @ initializations ys"
  by (induction xs rule: initializations.induct) simp_all

lemmas trace_append =
  draws_append ended_passes_append finished_encoders_append begun_passes_append
  initializations_append

lemma createOrResizeTargets_keeps:
  assumes "createOrResizeTargets (r, w) = (r', w')"
  shows "diags w' = diags w"
    and "draws (ops w') = draws (ops w)"
    and "ended_passes (ops w') = ended_passes (ops w)"
    and "finished_encoders (ops w') = finished_encoders (ops w)"
    and "begun_passes (ops w') = begun_passes (ops w)"
    and "initializations (ops w') = initializations (ops w)"
    and "buffers w' = buffers w"
    and "gpuDevice r' = gpuDevice r"
    and "canvasContext r' = canvasContext r"
    and "options r' = options r"
    and "width r' = width r"
    and "height r' = height r"
    and "fresh w \<le> fresh w'"
    and "canvas r' = canvas r"
  using assms
  by (auto simp: createOrResizeTargets_def Let_def createTexture_def createView_def
      destroyIfPresent_def new_handle_def emit_def trace_append
      split: option.splits if_splits prod.splits)










lemma BeginFrame_ok:
  assumes "canvasContext r = Some ctx" and "gpuDevice r = Some dev"
  shows "\<exists>f r' w'. BeginFrame (r, w) = (Inr f, (r', w')) \<and>
           diags w' = diags w \<and>
           draws (ops w') = draws (ops w) \<and>
           ended_passes (ops w') = ended_passes (ops w) \<and>
           finished_encoders (ops w') = finished_encoders (ops w) \<and>
           initializations (ops w') = initializations (ops w) \<and>
           begun_passes (ops w') = begun_passes (ops w) @ [fi_pass f] \<and>
           buffers w' = buffers w \<and>
           gpuDevice r' = gpuDevice r \<and> canvasContext r' = canvasContext r \<and>
           options r' = options r \<and>
           fresh w \<le> fi_colorView f \<and> fi_colorView f < fi_encoder f \<and>
           fi_encoder f < fi_pass f \<and> fi_pass f < fresh w'"
proof -
  define w2 where "w2 = snd (createCommandEncoder (snd (getCurrentTextureView ctx w)))"
  define cv where "cv = fst (getCurrentTextureView ctx w)"
  define en where "en = fst (createCommandEncoder (snd (getCurrentTextureView ctx w)))"
  have w2: "diags w2 = diags w" "draws (ops w2) = draws (ops w)"
    "ended_passes (ops w2) = ended_passes (ops w)"
    "finished_encoders (ops w2) = finished_encoders (ops w)"
    "initializations (ops w2) = initializations (ops w)"
    "begun_passes (ops w2) = begun_passes (ops w)"
    "buffers w2 = buffers w" "fresh w2 = Suc (Suc (fresh w))" "cv = fresh w" "en = Suc (fresh w)"
    by (simp_all add: w2_def cv_def en_def getCurrentTextureView_def createCommandEncoder_def
        new_handle_def emit_def trace_append)
  obtain r3 w3 where s3: "(if depthTextureView r = None then createOrResizeTargets (r, w2)
                         else (r, w2)) = (r3, w3)" by fastforce
  have k3: "diags w3 = diags w2 \<and> draws (ops w3) = draws (ops w2) \<and>
      ended_passes (ops w3) = ended_passes (ops w2) \<and>
      finished_encoders (ops w3) = finished_encoders (ops w2) \<and>
      initializations (ops w3) = initializations (ops w2) \<and>
      begun_passes (ops w3) = begun_passes (ops w2) \<and> buffers w3 = buffers w2 \<and>
      gpuDevice r3 = gpuDevice r \<and> canvasContext r3 = canvasContext r \<and>
      options r3 = options r \<and> fresh w2 \<le> fresh w3"
  proof (cases "depthTextureView r = None")
    case True
    with s3 have "createOrResizeTargets (r, w2) = (r3, w3)" by simp
    from createOrResizeTargets_keeps[OF this] show ?thesis by simp
  next
    case False
    with s3 show ?thesis by simp
  qed
  obtain r4 w4 where s4: "(if frameMsaa r > 1 \<and> msaaTextureView r3 = None
                         then createOrResizeTargets (r3, w3) else (r3, w3)) = (r4, w4)"
    by fastforce
  have k4: "diags w4 = diags w3 \<and> draws (ops w4) = draws (ops w3) \<and>
      ended_passes (ops w4) = ended_passes (ops w3) \<and>
      finished_encoders (ops w4) = finished_encoders (ops w3) \<and>
      initializations (ops w4) = initializations (ops w3) \<and>
      begun_passes (ops w4) = begun_passes (ops w3) \<and> buffers w4 = buffers w3 \<and>
      gpuDevice r4 = gpuDevice r3 \<and> canvasContext r4 = canvasContext r3 \<and>
      options r4 = options r3 \<and> fresh w3 \<le> fresh w4"
  proof (cases "frameMsaa r > 1 \<and> msaaTextureView r3 = None")
    case True
    with s4 have "createOrResizeTargets (r3, w3) = (r4, w4)" by simp
    from createOrResizeTargets_keeps[OF this] show ?thesis by simp
  next
    case False
    with s4 show ?thesis by auto
  qed
  have g: "getCurrentTextureView ctx w = (cv, snd (getCurrentTextureView ctx w))"
    by (simp add: cv_def)
  have e: "createCommandEncoder (snd (getCurrentTextureView ctx w)) = (en, w2)"
    by (simp add: en_def w2_def)
  have "\<exists>f w'. BeginFrame (r, w) = (Inr f, (r4, w')) \<and> fi_colorView f = cv \<and> fi_encoder f = en \<and>
          fi_pass f = fresh w4 \<and> fresh w' = Suc (fresh w4) \<and> diags w' = diags w4 \<and>
          buffers w' = buffers w4 \<and>
          (\<exists>ca d. ops w' = ops w4 @ [BeginRenderPass (fresh w4) en ca d])"
    unfolding BeginFrame_def
    apply (simp only: prod.case assms option.case Let_def)
    apply (subst g)
    apply (simp only: prod.case assms option.case)
    apply (subst e)
    apply (simp only: prod.case)
    apply (subst s3)
    apply (simp only: prod.case)
    apply (subst s4)
    apply (simp add: beginRenderPass_def new_handle_def emit_def)
    done
  then obtain f w' where b: "BeginFrame (r, w) = (Inr f, (r4, w'))" "fi_colorView f = cv"
    "fi_encoder f = en" "fi_pass f = fresh w4" "fresh w' = Suc (fresh w4)" "diags w' = diags w4"
    "buffers w' = buffers w4"
    and "\<exists>ca d. ops w' = ops w4 @ [BeginRenderPass (fresh w4) en ca d]" by blast
  then obtain ca d where o: "ops w' = ops w4 @ [BeginRenderPass (fresh w4) en ca d]" by blast
  have t: "draws (ops w') = draws (ops w4)" "ended_passes (ops w') = ended_passes (ops w4)"
    "finished_encoders (ops w') = finished_encoders (ops w4)"
    "initializations (ops w') = initializations (ops w4)"
    "begun_passes (ops w') = begun_passes (ops w4) @ [fresh w4]"
    by (simp_all add: o trace_append)
  show ?thesis
    apply (rule exI[of _ f], rule exI[of _ r4], rule exI[of _ w'])
    using b t w2 k3 k4 by simp
qed

lemma EndFrame_keeps:
  "diags (snd (snd (EndFrame fi (r, w)))) = diags w \<and>
   fst (snd (EndFrame fi (r, w))) = r \<and>
   buffers (snd (snd (EndFrame fi (r, w)))) = buffers w \<and>
   draws (ops (snd (snd (EndFrame fi (r, w))))) = draws (ops w) \<and>
   begun_passes (ops (snd (snd (EndFrame fi (r, w))))) = begun_passes (ops w) \<and>
   ended_passes (ops (snd (snd (EndFrame fi (r, w))))) = ended_passes (ops w) @ [fi_pass fi]"
  by (simp add: EndFrame_def Let_def new_handle_def emit_def trace_append
      split: option.splits prod.splits)

lemma EndFrame_result:
  "gpuDevice r = Some dev \<Longrightarrow> queue dev = Some q \<Longrightarrow> fst (EndFrame fi (r, w)) = None"
  by (simp add: EndFrame_def Let_def new_handle_def split: prod.splits)

lemma createOrResizeTargets_views:
  assumes "gpuDevice r = Some dev" and "createOrResizeTargets (r, w) = (r', w')"
  shows "depthTextureView r' \<noteq> None \<and> (1 < getMsaa r \<longrightarrow> msaaTextureView r' \<noteq> None)"
  using assms
  by (auto simp: createOrResizeTargets_def Let_def createTexture_def createView_def
      new_handle_def split: option.splits if_splits prod.splits)

lemma getMsaa_options: "options r' = options r \<Longrightarrow> getMsaa r' = getMsaa r"
  by (simp add: getMsaa_def)

lemma frameMsaa_options: "options r' = options r \<Longrightarrow> frameMsaa r' = frameMsaa r"
  by (simp add: frameMsaa_def)

lemma BeginFrame_targets:
  assumes c: "canvasContext r = Some ctx" and d: "gpuDevice r = Some dev"
    and b: "BeginFrame (r, w) = (res, (r', w'))"
  shows "depthTextureView r' \<noteq> None \<and>
         (frameMsaa r = getMsaa r \<longrightarrow> frameMsaa r \<le> 1 \<or> msaaTextureView r' \<noteq> None)"
proof -
  define w2 where "w2 = snd (createCommandEncoder (snd (getCurrentTextureView ctx w)))"
  obtain r3 w3 where s3: "(if depthTextureView r = None then createOrResizeTargets (r, w2)
                         else (r, w2)) = (r3, w3)" by fastforce
  obtain r4 w4 where s4: "(if frameMsaa r > 1 \<and> msaaTextureView r3 = None
                         then createOrResizeTargets (r3, w3) else (r3, w3)) = (r4, w4)"
    by fastforce
  have g: "getCurrentTextureView ctx w =
      (fst (getCurrentTextureView ctx w), snd (getCurrentTextureView ctx w))" by simp
  have e: "createCommandEncoder (snd (getCurrentTextureView ctx w)) =
      (fst (createCommandEncoder (snd (getCurrentTextureView ctx w))), w2)"
    by (simp add: w2_def)
  have "fst (snd (BeginFrame (r, w))) = r4"
    unfolding BeginFrame_def
    apply (simp only: prod.case c d option.case Let_def)
    apply (subst g)
    apply (simp only: prod.case c d option.case)
    apply (subst e)
    apply (simp only: prod.case)
    apply (subst s3)
    apply (simp only: prod.case)
    apply (subst s4)
    apply (simp add: beginRenderPass_def new_handle_def)
    done
  with b have r': "r' = r4" by simp
  have k3: "gpuDevice r3 = Some dev \<and> options r3 = options r \<and> depthTextureView r3 \<noteq> None \<and>
      (depthTextureView r = None \<longrightarrow> 1 < getMsaa r \<longrightarrow> msaaTextureView r3 \<noteq> None) \<and>
      (depthTextureView r \<noteq> None \<longrightarrow> r3 = r)"
  proof (cases "depthTextureView r = None")
    case True
    with s3 have x: "createOrResizeTargets (r, w2) = (r3, w3)" by simp
    from createOrResizeTargets_keeps(8,10)[OF x] createOrResizeTargets_views[OF d x] d True
    show ?thesis by simp
  next
    case False
    with s3 d show ?thesis by auto
  qed
  have k4: "depthTextureView r4 \<noteq> None \<and>
      (frameMsaa r = getMsaa r \<longrightarrow> frameMsaa r \<le> 1 \<or> msaaTextureView r4 \<noteq> None)"
  proof (cases "frameMsaa r > 1 \<and> msaaTextureView r3 = None")
    case True
    with s4 have x: "createOrResizeTargets (r3, w3) = (r4, w4)" by simp
    have d3: "gpuDevice r3 = Some dev" using k3 by simp
    have "getMsaa r3 = getMsaa r" using k3 getMsaa_options[of r3 r] by blast
    from createOrResizeTargets_views[OF d3 x] have
      v: "depthTextureView r4 \<noteq> None" "1 < getMsaa r3 \<longrightarrow> msaaTextureView r4 \<noteq> None"
      by simp_all
    show ?thesis
    proof (intro conjI impI)
      show "depthTextureView r4 \<noteq> None" by (rule v(1))
      assume "frameMsaa r = getMsaa r"
      with True \<open>getMsaa r3 = getMsaa r\<close> have "1 < getMsaa r3" by simp
      with v(2) show "frameMsaa r \<le> 1 \<or> msaaTextureView r4 \<noteq> None" by simp
    qed
  next
    case False
    with s4 have r43: "r4 = r3" by (simp split: if_splits)
    show ?thesis
    proof (intro conjI impI)
      show "depthTextureView r4 \<noteq> None" using k3 r43 by simp
      assume "frameMsaa r = getMsaa r"
      show "frameMsaa r \<le> 1 \<or> msaaTextureView r4 \<noteq> None"
        using False r43 by (cases "frameMsaa r \<le> 1") simp_all
    qed
  qed
  show ?thesis using k4 r' by simp
qed

lemma BeginFrame_steady:
  assumes "canvasContext r = Some ctx" and "gpuDevice r = Some dev"
    and "depthTextureView r = Some dv"
    and "frameMsaa r \<le> 1 \<or> msaaTextureView r \<noteq> None"
  shows "\<exists>ca. BeginFrame (r, w) =
           (Inr \<lparr> fi_encoder = Suc (fresh w), fi_pass = Suc (Suc (fresh w)),
                  fi_colorView = fresh w \<rparr>,
            (r, w\<lparr> fresh := Suc (Suc (Suc (fresh w))),
                   ops := ops w @ [GetCurrentTextureView (fresh w) ctx,
                                   CreateCommandEncoder (Suc (fresh w)),
                                   BeginRenderPass (Suc (Suc (fresh w))) (Suc (fresh w)) ca
                                     (Some dv)] \<rparr>))"
  using assms
  by (auto simp: BeginFrame_def Let_def getCurrentTextureView_def createCommandEncoder_def
      beginRenderPass_def new_handle_def emit_def)

lemma EndFrame_with_queue:
  assumes "gpuDevice r = Some dev" and "queue dev = Some q"
  shows "EndFrame fi (r, w) =
           (None, (r, w\<lparr> fresh := Suc (fresh w),
                          ops := ops w @ [PassEnd (fi_pass fi),
                                          EncoderFinish (fi_encoder fi) (fresh w),
                                          QueueSubmit q (fresh w)] \<rparr>))"
  using assms by (simp add: EndFrame_def Let_def new_handle_def emit_def)

text \<open>
  C1 (as amended). \<open>BeginFrame\<close> and \<open>EndFrame\<close> keep no record of open sessions and
  report nothing. On a renderer that has a context and a device, \<open>BeginFrame\<close> called twice
  in a row succeeds both times: the second call begins a second pass on a second encoder,
  no diagnostic is written, and the pass and the encoder of the first session are neither
  ended nor finished by it. When the requested sample count is one the renderer supports
  (\<open>BeginFrame\<close> and \<open>getMsaa\<close> agree on it), the second call leaves the renderer and its
  targets as they are: all it does is take the current view, create its encoder and begin
  its pass. \<open>EndFrame\<close> ends the pass of whatever frame it is given and writes no
  diagnostic; when the device has its queue, it then finishes the encoder of that frame and
  submits the command buffer, and does nothing else.
\<close>

theorem BeginFrame_twice_opens_two_sessions:
  assumes "canvasContext r = Some ctx" and "gpuDevice r = Some dev"
  shows "\<exists>f1 r1 w1 f2 r2 w2.
           BeginFrame (r, w) = (Inr f1, (r1, w1)) \<and>
           BeginFrame (r1, w1) = (Inr f2, (r2, w2)) \<and>
           diags w2 = diags w \<and>
           fi_pass f1 \<noteq> fi_pass f2 \<and> fi_encoder f1 \<noteq> fi_encoder f2 \<and>
           begun_passes (ops w2) = begun_passes (ops w) @ [fi_pass f1, fi_pass f2] \<and>
           ended_passes (ops w2) = ended_passes (ops w) \<and>
           finished_encoders (ops w2) = finished_encoders (ops w) \<and>
           (frameMsaa r = getMsaa r \<longrightarrow>
              r2 = r1 \<and>
              (\<exists>ca. ops w2 =
                 ops w1 @ [GetCurrentTextureView (fi_colorView f2) ctx,
                           CreateCommandEncoder (fi_encoder f2),
                           BeginRenderPass (fi_pass f2) (fi_encoder f2) ca
                             (depthTextureView r1)])) \<and>
           (\<forall>fi. diags (snd (snd (EndFrame fi (r, w)))) = diags w \<and>
                 ended_passes (ops (snd (snd (EndFrame fi (r, w))))) =
                   ended_passes (ops w) @ [fi_pass fi]) \<and>
           (\<forall>fi q. queue dev = Some q \<longrightarrow>
              EndFrame fi (r, w) =
                (None, (r, w\<lparr> fresh := Suc (fresh w),
                               ops := ops w @ [PassEnd (fi_pass fi),
                                               EncoderFinish (fi_encoder fi) (fresh w),
                                               QueueSubmit q (fresh w)] \<rparr>)))"
proof -
  from BeginFrame_ok[OF assms, of w] obtain f1 r1 w1 where
    b1: "BeginFrame (r, w) = (Inr f1, (r1, w1))" "diags w1 = diags w"
      "ended_passes (ops w1) = ended_passes (ops w)"
      "finished_encoders (ops w1) = finished_encoders (ops w)"
      "begun_passes (ops w1) = begun_passes (ops w) @ [fi_pass f1]"
      "gpuDevice r1 = gpuDevice r" "canvasContext r1 = canvasContext r"
      "fi_encoder f1 < fi_pass f1" "fi_pass f1 < fresh w1" "options r1 = options r"
    by blast
  have c1: "canvasContext r1 = Some ctx" and d1: "gpuDevice r1 = Some dev"
    using b1(6,7) assms by simp_all
  from BeginFrame_ok[OF c1 d1, of w1] obtain f2 r2 w2 where
    b2: "BeginFrame (r1, w1) = (Inr f2, (r2, w2))" "diags w2 = diags w1"
      "ended_passes (ops w2) = ended_passes (ops w1)"
      "finished_encoders (ops w2) = finished_encoders (ops w1)"
      "begun_passes (ops w2) = begun_passes (ops w1) @ [fi_pass f2]"
      "fresh w1 \<le> fi_colorView f2" "fi_colorView f2 < fi_encoder f2"
      "fi_encoder f2 < fi_pass f2"
    by blast
  have ne: "fi_pass f1 \<noteq> fi_pass f2" "fi_encoder f1 \<noteq> fi_encoder f2"
    using b1(8,9) b2(6,7,8) by simp_all
  from BeginFrame_targets[OF assms b1(1)]
  have t: "depthTextureView r1 \<noteq> None"
    "frameMsaa r = getMsaa r \<longrightarrow> frameMsaa r \<le> 1 \<or> msaaTextureView r1 \<noteq> None"
    by simp_all
  have fm: "frameMsaa r1 = frameMsaa r" using b1(10) by (rule frameMsaa_options)
  have steady: "r2 = r1 \<and>
      (\<exists>ca. ops w2 =
         ops w1 @ [GetCurrentTextureView (fi_colorView f2) ctx,
                   CreateCommandEncoder (fi_encoder f2),
                   BeginRenderPass (fi_pass f2) (fi_encoder f2) ca (depthTextureView r1)])"
    if a: "frameMsaa r = getMsaa r"
  proof -
    from t(1) obtain dv where dv: "depthTextureView r1 = Some dv" by blast
    from t(2) a fm have m: "frameMsaa r1 \<le> 1 \<or> msaaTextureView r1 \<noteq> None" by simp
    from BeginFrame_steady[OF c1 d1 dv m, of w1] b2(1) dv show ?thesis by auto
  qed
  have e: "\<forall>fi. diags (snd (snd (EndFrame fi (r, w)))) = diags w \<and>
                 ended_passes (ops (snd (snd (EndFrame fi (r, w))))) =
                   ended_passes (ops w) @ [fi_pass fi]"
    by (simp add: EndFrame_keeps)
  have q: "\<forall>fi q. queue dev = Some q \<longrightarrow>
              EndFrame fi (r, w) =
                (None, (r, w\<lparr> fresh := Suc (fresh w),
                               ops := ops w @ [PassEnd (fi_pass fi),
                                               EncoderFinish (fi_encoder fi) (fresh w),
                                               QueueSubmit q (fresh w)] \<rparr>))"
    using EndFrame_with_queue[OF assms(2)] by blast
  show ?thesis
    apply (rule exI[of _ f1], rule exI[of _ r1], rule exI[of _ w1])
    apply (rule exI[of _ f2], rule exI[of _ r2], rule exI[of _ w2])
    using b1(1,2,3,4,5) b2(1,2,3,4,5) ne e q steady by simp
qed

theorem BeginFrame_twice_opens_two_sessions_witness:
  "canvasContext (fst (initialized no_options)) = Some 2 \<and>
   gpuDevice (fst (initialized no_options)) = Some \<lparr> dev_id = 0, queue = Some 1 \<rparr> \<and>
   frameMsaa (fst (initialized no_options)) = getMsaa (fst (initialized no_options)) \<and>
   (\<exists>f1 s1 f2 s2.
      BeginFrame (initialized no_options) = (Inr f1, s1) \<and>
      BeginFrame s1 = (Inr f2, s2) \<and>
      diags (snd s2) = diags (snd (initialized no_options)) \<and>
      fi_pass f1 \<noteq> fi_pass f2 \<and>
      ended_passes (ops (snd s2)) = [] \<and>
      fst s2 = fst s1) \<and>
   ops (snd (snd (EndFrame \<lparr> fi_encoder = 8, fi_pass = 9, fi_colorView = 7 \<rparr>
      (initialized no_options)))) =
     ops (snd (initialized no_options)) @ [PassEnd 9, EncoderFinish 8 7, QueueSubmit 1 7]"
proof -
  have c: "canvasContext (fst (initialized no_options)) = Some 2"
    and d: "gpuDevice (fst (initialized no_options)) = Some \<lparr> dev_id = 0, queue = Some 1 \<rparr>"
    and e: "ended_passes (ops (snd (initialized no_options))) = []"
    and m: "frameMsaa (fst (initialized no_options)) = getMsaa (fst (initialized no_options))"
    and f: "fresh (snd (initialized no_options)) = 7"
    by (simp_all add: init_defs frameMsaa_def)
  note th = BeginFrame_twice_opens_two_sessions[OF c d, of "snd (initialized no_options)"]
  from th e m
  have 1: "\<exists>f1 s1 f2 s2.
      BeginFrame (initialized no_options) = (Inr f1, s1) \<and>
      BeginFrame s1 = (Inr f2, s2) \<and>
      diags (snd s2) = diags (snd (initialized no_options)) \<and>
      fi_pass f1 \<noteq> fi_pass f2 \<and>
      ended_passes (ops (snd s2)) = [] \<and>
      fst s2 = fst s1"
    by (simp only: prod.collapse) (metis fst_conv snd_conv)
  from th have "EndFrame \<lparr> fi_encoder = 8, fi_pass = 9, fi_colorView = 7 \<rparr>
      (fst (initialized no_options), snd (initialized no_options)) =
      (None, (fst (initialized no_options),
              (snd (initialized no_options))\<lparr> fresh := Suc (fresh (snd (initialized no_options))),
                ops := ops (snd (initialized no_options)) @
                  [PassEnd 9, EncoderFinish 8 (fresh (snd (initialized no_options))),
                   QueueSubmit 1 (fresh (snd (initialized no_options)))] \<rparr>))"
    by (elim exE conjE) simp
  then have 2: "ops (snd (snd (EndFrame \<lparr> fi_encoder = 8, fi_pass = 9, fi_colorView = 7 \<rparr>
      (initialized no_options)))) =
     ops (snd (initialized no_options)) @ [PassEnd 9, EncoderFinish 8 7, QueueSubmit 1 7]"
    by (simp add: f)
  from c d m 1 2 show ?thesis by blast
qed

text \<open>
  C1 as stated fails: on an initialized renderer a second \<open>BeginFrame\<close> without an
  \<open>EndFrame\<close> in between returns a second session, and no error is reported: the
  diagnostics are those written during initialization (three logs and the warning for the
  pixel ratio of 2), none of them an error.
\<close>

theorem BeginFrame_twice_counterexample:
  "fst (BeginFrame (initialized no_options)) =
     Inr \<lparr> fi_encoder = 8, fi_pass = 9, fi_colorView = 7 \<rparr> \<and>
   fst (BeginFrame (snd (BeginFrame (initialized no_options)))) =
     Inr \<lparr> fi_encoder = 11, fi_pass = 12, fi_colorView = 10 \<rparr> \<and>
   map fst (diags (snd (snd (BeginFrame (snd (BeginFrame (initialized no_options))))))) =
     [Info, Info, Info, Warning] \<and>
   diags (snd (snd (BeginFrame (snd (BeginFrame (initialized no_options)))))) =
     diags (snd (initialized no_options))"
  by (simp add: init_defs BeginFrame_def frameMsaa_def)

text \<open>
  The sample count \<open>getMsaa\<close> resolves is the requested one when that is 1, 2, 4 or 8, and
  1 otherwise.
\<close>

lemma getMsaa_clamps:
  "getMsaa r =
     (case msaaSampleCount (options r) of
        None \<Rightarrow> 1
      | Some n \<Rightarrow> if n = 1 \<or> n = 2 \<or> n = 4 \<or> n = 8 then n else 1)"
  by (simp add: getMsaa_def Let_def split: option.splits)

text \<open>
  C3 at \<open>msaaSampleCount = 3\<close>. The targets are allocated with the sample count of
  \<open>getMsaa\<close>, which is 1, and there is no multisample view. \<open>BeginFrame\<close> computes 3 for
  itself, takes the multisample branch and begins the pass with an absent view as its
  colour attachment; \<open>Prepare\<close> hands 3 to every \<open>Initialize\<close>, and a
  \<^verbatim>\<open>SimpleTriangle\<close> makes its pipeline with 3 samples.
\<close>

theorem msaaSampleCount_three_not_clamped_everywhere:
  "getMsaa (fst (initialized (no_options\<lparr> msaaSampleCount := Some 3 \<rparr>))) = 1 \<and>
   map_option tex_sampleCount
     (depthTexture (fst (initialized (no_options\<lparr> msaaSampleCount := Some 3 \<rparr>)))) = Some 1 \<and>
   msaaTextureView (fst (initialized (no_options\<lparr> msaaSampleCount := Some 3 \<rparr>))) = None \<and>
   frameMsaa (fst (initialized (no_options\<lparr> msaaSampleCount := Some 3 \<rparr>))) = 3 \<and>
   last (ops (snd (snd (BeginFrame (initialized (no_options\<lparr> msaaSampleCount := Some 3 \<rparr>)))))) =
     BeginRenderPass 11 8
       \<lparr> ca_view = None, ca_resolveTarget = Some 7, ca_clearValue = (0, 0, 0, 1) \<rparr> (Some 10) \<and>
   prepareSampleCount (fst (initialized (no_options\<lparr> msaaSampleCount := Some 3 \<rparr>))) = 3 \<and>
   pipelineSampleCount 3 = 3"
  by (simp add: init_defs BeginFrame_def frameMsaa_def prepareSampleCount_def
      pipelineSampleCount_def)

section \<open>Properties of scenes and cameras\<close>

lemma writeBuffer_keeps:
  "diags (writeBuffer b off data w) = diags w \<and>
   fresh (writeBuffer b off data w) = fresh w \<and>
   draws (ops (writeBuffer b off data w)) = draws (ops w) \<and>
   ended_passes (ops (writeBuffer b off data w)) = ended_passes (ops w) \<and>
   begun_passes (ops (writeBuffer b off data w)) = begun_passes (ops w) \<and>
   initializations (ops (writeBuffer b off data w)) = initializations (ops w)"
  by (simp add: writeBuffer_def Let_def emit_def trace_append split: option.splits)

lemma WriteUniformsToQueue_keeps:
  "draws (ops (WriteUniformsToQueue G c w)) = draws (ops w) \<and>
   ended_passes (ops (WriteUniformsToQueue G c w)) = ended_passes (ops w) \<and>
   begun_passes (ops (WriteUniformsToQueue G c w)) = begun_passes (ops w) \<and>
   initializations (ops (WriteUniformsToQueue G c w)) = initializations (ops w)"
  by (simp add: WriteUniformsToQueue_def Let_def writeBuffer_keeps report_def
      split: option.splits)

lemma renderAll_spec:
  "draws (ops (snd (renderAll xs p w))) =
     draws (ops w) @ map rend_id (takeWhile render_ok xs @ take 1 (dropWhile render_ok xs)) \<and>
   diags (snd (renderAll xs p w)) = diags w \<and>
   begun_passes (ops (snd (renderAll xs p w))) = begun_passes (ops w) \<and>
   ended_passes (ops (snd (renderAll xs p w))) = ended_passes (ops w)"
  by (induction xs arbitrary: w) (simp_all add: Let_def emit_def trace_append)

lemma renderAll_result:
  "fst (renderAll xs p w) = (if \<forall>x\<in>set xs. render_ok x then None else Some RenderRejected)"
  by (induction xs arbitrary: w) (simp_all add: Let_def)

lemma Render_ready:
  assumes a: "hasPrepared scene \<and> gpuDevice r = Some dev \<and> queue dev = Some q \<and>
      canvasContext r = Some ctx"
  shows "draws (ops (snd (snd (Render G scene cam (r, w))))) =
        draws (ops w) @
        map rend_id (takeWhile render_ok (rendererables scene) @
                     take 1 (dropWhile render_ok (rendererables scene))) \<and>
      ((\<forall>x\<in>set (rendererables scene). render_ok x) \<longrightarrow>
         fst (Render G scene cam (r, w)) = None \<and>
         draws (ops (snd (snd (Render G scene cam (r, w))))) =
           draws (ops w) @ map rend_id (rendererables scene) \<and>
         (\<exists>p. begun_passes (ops (snd (snd (Render G scene cam (r, w))))) =
                 begun_passes (ops w) @ [p] \<and>
              ended_passes (ops (snd (snd (Render G scene cam (r, w))))) =
                 ended_passes (ops w) @ [p])) \<and>
      (\<not> (\<forall>x\<in>set (rendererables scene). render_ok x) \<longrightarrow>
         fst (Render G scene cam (r, w)) = Some RenderRejected \<and>
         ended_passes (ops (snd (snd (Render G scene cam (r, w))))) = ended_passes (ops w))"
proof -
  define xs where "xs = rendererables scene"
  define w1 where "w1 = WriteUniformsToQueue G cam w"
  from a have c: "canvasContext r = Some ctx" and d: "gpuDevice r = Some dev" by simp_all
  from BeginFrame_ok[OF c d, of w1] obtain f r2 w2 where
    b: "BeginFrame (r, w1) = (Inr f, (r2, w2))" "draws (ops w2) = draws (ops w1)"
      "gpuDevice r2 = gpuDevice r" "ended_passes (ops w2) = ended_passes (ops w1)"
      "begun_passes (ops w2) = begun_passes (ops w1) @ [fi_pass f]"
    by blast
  define w3 where "w3 = emit (SetBindGroup (fi_pass f) 0 (bindGroup cam)) w2"
  obtain e w4 where ra: "renderAll xs (fi_pass f) w3 = (e, w4)" by fastforce
  have k1: "draws (ops w1) = draws (ops w)" "ended_passes (ops w1) = ended_passes (ops w)"
    "begun_passes (ops w1) = begun_passes (ops w)"
    by (simp_all add: w1_def WriteUniformsToQueue_keeps)
  have k3: "draws (ops w3) = draws (ops w)" "ended_passes (ops w3) = ended_passes (ops w)"
    "begun_passes (ops w3) = begun_passes (ops w) @ [fi_pass f]"
    by (simp_all add: w3_def emit_def trace_append b k1)
  from renderAll_spec[of xs "fi_pass f" w3] ra
  have k4: "draws (ops w4) =
      draws (ops w) @ map rend_id (takeWhile render_ok xs @ take 1 (dropWhile render_ok xs))"
    "ended_passes (ops w4) = ended_passes (ops w)"
    "begun_passes (ops w4) = begun_passes (ops w) @ [fi_pass f]"
    by (simp_all add: k3)
  from renderAll_result[of xs "fi_pass f" w3] ra
  have k5: "e = (if \<forall>x\<in>set xs. render_ok x then None else Some RenderRejected)"
    by simp
  have d2: "gpuDevice r2 = Some dev" using b(3) d by simp
  show ?thesis
  proof (cases "\<forall>x\<in>set xs. render_ok x")
    case True
    then have e: "e = None" using k5 by simp
    have eq: "Render G scene cam (r, w) = EndFrame f (r2, w4)"
      using a b(1) ra e by (simp add: Render_def Let_def w1_def w3_def xs_def)
    have tk: "takeWhile render_ok xs = xs" and dk: "dropWhile render_ok xs = []"
      using True by (simp_all add: takeWhile_eq_all_conv)
    have tw: "takeWhile render_ok xs @ take 1 (dropWhile render_ok xs) = xs"
      unfolding tk dk by simp
    have r0: "draws (ops (snd (snd (Render G scene cam (r, w))))) =
        draws (ops w) @
        map rend_id (takeWhile render_ok xs @ take 1 (dropWhile render_ok xs))"
      unfolding eq by (simp add: EndFrame_keeps k4(1))
    have r1: "fst (Render G scene cam (r, w)) = None"
      unfolding eq using d2 a by (simp add: EndFrame_result)
    have r2: "draws (ops (snd (snd (Render G scene cam (r, w))))) =
        draws (ops w) @ map rend_id xs"
      using r0 unfolding tw .
    have r3: "begun_passes (ops (snd (snd (Render G scene cam (r, w))))) =
               begun_passes (ops w) @ [fi_pass f]"
      unfolding eq by (simp add: EndFrame_keeps k4(3))
    have r4: "ended_passes (ops (snd (snd (Render G scene cam (r, w))))) =
               ended_passes (ops w) @ [fi_pass f]"
      unfolding eq by (simp add: EndFrame_keeps k4(2))
    from True r0 r1 r2 r3 r4 show ?thesis unfolding xs_def by blast
  next
    case False
    then have e: "e = Some RenderRejected" using k5 by simp
    have eq: "Render G scene cam (r, w) = (Some RenderRejected, (r2, w4))"
      using a b(1) ra e by (simp add: Render_def Let_def w1_def w3_def xs_def)
    have q0: "draws (ops (snd (snd (Render G scene cam (r, w))))) =
        draws (ops w) @
        map rend_id (takeWhile render_ok xs @ take 1 (dropWhile render_ok xs))"
      unfolding eq by (simp add: k4(1))
    have q1: "fst (Render G scene cam (r, w)) = Some RenderRejected"
      unfolding eq by simp
    have q2: "ended_passes (ops (snd (snd (Render G scene cam (r, w))))) = ended_passes (ops w)"
      unfolding eq by (simp add: k4(2))
    from False q0 q1 q2 show ?thesis unfolding xs_def by blast
  qed
qed

lemma Render_without_context:
  assumes "hasPrepared scene" and "gpuDevice r = Some dev" and "queue dev = Some q"
    and "canvasContext r = None"
  shows "Render G scene cam (r, w) = (Some TypeError, (r, WriteUniformsToQueue G cam w))"
  using assms by (simp add: Render_def BeginFrame_def Let_def)

text \<open>
  C8 (as amended). On a renderer that has its context, its device and the queue of the
  device, \<open>Render\<close> of a prepared scene calls \<open>Render\<close> of the renderables of the scene in
  the order of the list, index 0 first, each at most once, up to and including the first
  one that throws. When none throws, every renderable is called exactly once, the pass of
  the frame is ended and \<open>Render\<close> returns normally; when one throws, the renderables
  after it are not called and the pass of the frame is not ended. \<open>AddRenderable\<close> puts a
  renderable at the end of the list, so the order is that of insertion. \<open>Render\<close> of a
  scene that is not prepared reports the error \<open>WGPUR_SCENE_NOT_PREPARED\<close> and does
  nothing else: no draw is issued.
\<close>

theorem Render_draws_in_insertion_order:
  "(hasPrepared scene \<and> gpuDevice r = Some dev \<and> queue dev = Some q \<and>
      canvasContext r = Some ctx \<longrightarrow>
      draws (ops (snd (snd (Render G scene cam (r, w))))) =
        draws (ops w) @
        map rend_id (takeWhile render_ok (rendererables scene) @
                     take 1 (dropWhile render_ok (rendererables scene))) \<and>
      ((\<forall>x\<in>set (rendererables scene). render_ok x) \<longrightarrow>
         fst (Render G scene cam (r, w)) = None \<and>
         draws (ops (snd (snd (Render G scene cam (r, w))))) =
           draws (ops w) @ map rend_id (rendererables scene) \<and>
         (\<exists>p. begun_passes (ops (snd (snd (Render G scene cam (r, w))))) =
                 begun_passes (ops w) @ [p] \<and>
              ended_passes (ops (snd (snd (Render G scene cam (r, w))))) =
                 ended_passes (ops w) @ [p])) \<and>
      (\<not> (\<forall>x\<in>set (rendererables scene). render_ok x) \<longrightarrow>
         fst (Render G scene cam (r, w)) = Some RenderRejected \<and>
         ended_passes (ops (snd (snd (Render G scene cam (r, w))))) = ended_passes (ops w))) \<and>
   (\<not> hasPrepared scene \<longrightarrow>
      Render G scene cam (r, w) =
        (None, (r, w\<lparr> diags := diags w @ [(Error, WGPUR_SCENE_NOT_PREPARED)] \<rparr>))) \<and>
   (isRenderable x \<longrightarrow> rendererables (AddRenderable s x) = rendererables s @ [x])"
proof -
  have unprepared: "Render G scene cam (r, w) =
        (None, (r, w\<lparr> diags := diags w @ [(Error, WGPUR_SCENE_NOT_PREPARED)] \<rparr>))"
    if "\<not> hasPrepared scene"
    using that by (simp add: Render_def report_def)
  have add: "rendererables (AddRenderable s x) = rendererables s @ [x]" if "isRenderable x"
    using that by (simp add: AddRenderable_def)
  from Render_ready[of scene r dev q ctx G cam w] unprepared add show ?thesis by blast
qed

lemmas example_defs = prepared_example_def prepared_scene_def prepared_camera_def
  throwing_renderable_def scene_with_thrower_def
  prepared_world_def example_scene_def example_camera_def example_renderable_def example_gl_def
  new_Scene_def AddRenderable_def new_PerspectiveCamera_def updateMatrices_def
  updateProjection_def fromValues_def mat4_create_def Prepare_def prepareSampleCount_def
  EnsureBinding_def CreateUniformBuffer_def createBuffer_def

lemma example_facts:
  "hasPrepared prepared_scene"
  "gpuDevice (fst (initialized no_options)) = Some \<lparr> dev_id = 0, queue = Some 1 \<rparr>"
  "canvasContext (fst (initialized no_options)) = Some 2"
  "rendererables prepared_scene = [example_renderable 0, example_renderable 1]"
  "draws (ops prepared_world) = []"
  "\<not> hasPrepared example_scene"
  "draws (ops (snd (initialized no_options))) = []"
  "hasPrepared scene_with_thrower"
  "rendererables scene_with_thrower =
     [example_renderable 0, example_renderable 1, throwing_renderable 2, example_renderable 3]"
  by (simp_all add: init_defs prepared_example_def prepared_scene_def prepared_world_def
      scene_with_thrower_def example_scene_def new_Scene_def AddRenderable_def
      example_renderable_def throwing_renderable_def example_camera_def example_gl_def
      new_PerspectiveCamera_def updateMatrices_def updateProjection_def fromValues_def
      mat4_create_def Prepare_def prepareSampleCount_def EnsureBinding_def
      CreateUniformBuffer_def createBuffer_def)

lemma example_renderable_fields:
  "render_ok (example_renderable k)" "\<not> render_ok (throwing_renderable k)"
  "rend_id (example_renderable k) = k" "rend_id (throwing_renderable k) = k"
  "isRenderable (example_renderable k)"
  by (simp_all add: example_renderable_def throwing_renderable_def)

theorem Render_draws_in_insertion_order_witness:
  "hasPrepared prepared_scene \<and>
   gpuDevice (fst (initialized no_options)) = Some \<lparr> dev_id = 0, queue = Some 1 \<rparr> \<and>
   canvasContext (fst (initialized no_options)) = Some 2 \<and>
   map rend_id (rendererables prepared_scene) = [0, 1] \<and>
   fst (Render example_gl prepared_scene prepared_camera
      (fst (initialized no_options), prepared_world)) = None \<and>
   draws (ops (snd (snd (Render example_gl prepared_scene prepared_camera
      (fst (initialized no_options), prepared_world))))) = [0, 1] \<and>
   hasPrepared scene_with_thrower \<and>
   map rend_id (rendererables scene_with_thrower) = [0, 1, 2, 3] \<and>
   map render_ok (rendererables scene_with_thrower) = [True, True, False, True] \<and>
   fst (Render example_gl scene_with_thrower prepared_camera
      (fst (initialized no_options), prepared_world)) = Some RenderRejected \<and>
   draws (ops (snd (snd (Render example_gl scene_with_thrower prepared_camera
      (fst (initialized no_options), prepared_world))))) = [0, 1, 2] \<and>
   \<not> hasPrepared example_scene \<and> isRenderable (example_renderable 1) \<and>
   draws (ops (snd (snd (Render example_gl example_scene example_camera
      (initialized no_options))))) = []"
proof -
  note p = example_facts(1) and d = example_facts(2) and c = example_facts(3)
    and m = example_facts(4) and o = example_facts(5) and n = example_facts(6)
    and o' = example_facts(7) and pt = example_facts(8) and mt = example_facts(9)
  note ok = example_renderable_fields
  from Render_draws_in_insertion_order[where scene = prepared_scene
      and r = "fst (initialized no_options)" and dev = "\<lparr> dev_id = 0, queue = Some 1 \<rparr>"
      and q = 1 and ctx = 2 and G = example_gl and cam = prepared_camera and w = prepared_world
      and x = "example_renderable 1" and s = new_Scene] p d c o
  have a: "fst (Render example_gl prepared_scene prepared_camera
      (fst (initialized no_options), prepared_world)) = None"
    "draws (ops (snd (snd (Render example_gl prepared_scene prepared_camera
      (fst (initialized no_options), prepared_world))))) = [0, 1]"
    by (simp_all add: m ok)
  from Render_draws_in_insertion_order[where scene = scene_with_thrower
      and r = "fst (initialized no_options)" and dev = "\<lparr> dev_id = 0, queue = Some 1 \<rparr>"
      and q = 1 and ctx = 2 and G = example_gl and cam = prepared_camera and w = prepared_world]
    pt d c o
  have t: "fst (Render example_gl scene_with_thrower prepared_camera
      (fst (initialized no_options), prepared_world)) = Some RenderRejected"
    "draws (ops (snd (snd (Render example_gl scene_with_thrower prepared_camera
      (fst (initialized no_options), prepared_world))))) = [0, 1, 2]"
    by (simp_all add: mt ok)
  from Render_draws_in_insertion_order[where scene = example_scene
      and r = "fst (initialized no_options)" and G = example_gl and cam = example_camera
      and w = "snd (initialized no_options)"] n o'
  have b: "draws (ops (snd (snd (Render example_gl example_scene example_camera
      (initialized no_options))))) = []" by simp
  have m1: "map rend_id (rendererables prepared_scene) = [0, 1]" by (simp add: m ok)
  have m2: "map rend_id (rendererables scene_with_thrower) = [0, 1, 2, 3]"
    "map render_ok (rendererables scene_with_thrower) = [True, True, False, True]"
    by (simp_all add: mt ok)
  have i: "isRenderable (example_renderable 1)" by (rule ok)
  from p d c m1 a pt m2 t n i b show ?thesis by blast
qed

text \<open>
  C8 as stated fails on prepared scenes. In a browser whose canvas gives no context,
  \<open>Initialize\<close> still sets \<open>hasInitialized\<close>, \<open>Prepare\<close> succeeds, and \<open>Render\<close> throws
  in \<open>BeginFrame\<close> before any renderable is called. And on an initialized renderer, when
  the third of four renderables throws in its \<open>Render\<close>, the fourth is never called.
\<close>

theorem Render_draws_in_insertion_order_counterexample:
  "hasInitialized (fst initialized_without_context) \<and>
   canvasContext (fst initialized_without_context) = None \<and>
   fst prepared_without_context = None \<and>
   hasPrepared (fst (snd prepared_without_context)) \<and>
   map rend_id (rendererables (fst (snd prepared_without_context))) = [0, 1] \<and>
   fst (Render example_gl (fst (snd prepared_without_context))
          (fst (snd (snd prepared_without_context)))
          (fst initialized_without_context, snd (snd (snd prepared_without_context)))) =
     Some TypeError \<and>
   draws (ops (snd (snd (Render example_gl (fst (snd prepared_without_context))
          (fst (snd (snd prepared_without_context)))
          (fst initialized_without_context, snd (snd (snd prepared_without_context))))))) = [] \<and>
   hasPrepared scene_with_thrower \<and>
   map rend_id (rendererables scene_with_thrower) = [0, 1, 2, 3] \<and>
   draws (ops (snd (snd (Render example_gl scene_with_thrower prepared_camera
      (fst (initialized no_options), prepared_world))))) = [0, 1, 2]"
proof -
  let ?r = "fst initialized_without_context"
  let ?s = "fst (snd prepared_without_context)"
  let ?c = "fst (snd (snd prepared_without_context))"
  let ?w = "snd (snd (snd prepared_without_context))"
  have i: "hasInitialized ?r" and c: "canvasContext ?r = None"
    and d: "gpuDevice ?r = Some \<lparr> dev_id = 0, queue = Some 1 \<rparr>"
    by (simp_all add: init_defs initialized_without_context_def browser_without_context_def)
  have e: "fst prepared_without_context = None" and p: "hasPrepared ?s"
    and m: "rendererables ?s = [example_renderable 0, example_renderable 1]"
    and o: "draws (ops ?w) = []"
    by (simp_all add: init_defs initialized_without_context_def browser_without_context_def
        prepared_without_context_def example_scene_def new_Scene_def AddRenderable_def
        example_renderable_def example_camera_def example_gl_def
        new_PerspectiveCamera_def updateMatrices_def updateProjection_def fromValues_def
        mat4_create_def Prepare_def prepareSampleCount_def EnsureBinding_def
        CreateUniformBuffer_def createBuffer_def)
  have r: "Render example_gl ?s ?c (?r, ?w) =
      (Some TypeError, (?r, WriteUniformsToQueue example_gl ?c ?w))"
    by (rule Render_without_context[OF p d _ c]) simp
  have r1: "fst (Render example_gl ?s ?c (?r, ?w)) = Some TypeError" by (simp add: r)
  have r2: "draws (ops (snd (snd (Render example_gl ?s ?c (?r, ?w))))) = []"
    by (simp add: r WriteUniformsToQueue_keeps o)
  have m1: "map rend_id (rendererables ?s) = [0, 1]"
    by (simp add: m example_renderable_fields)
  have m2: "map rend_id (rendererables scene_with_thrower) = [0, 1, 2, 3]"
    by (simp add: example_facts(9) example_renderable_fields)
  from Render_ready[where scene = scene_with_thrower
      and r = "fst (initialized no_options)" and dev = "\<lparr> dev_id = 0, queue = Some 1 \<rparr>"
      and q = 1 and ctx = 2 and G = example_gl and cam = prepared_camera and w = prepared_world]
    example_facts(8,2,3,5)
  have t: "draws (ops (snd (snd (Render example_gl scene_with_thrower prepared_camera
      (fst (initialized no_options), prepared_world))))) = [0, 1, 2]"
    by (simp add: example_facts(9) example_renderable_fields)
  from i c e p m1 r1 r2 example_facts(8) m2 t show ?thesis by blast
qed

lemma initializeAll_result:
  "(fst (initializeAll xs sc w) = None) = (\<forall>x\<in>set xs. initialize_ok x sc)"
  by (induction xs arbitrary: w) (simp_all add: Let_def)

lemma initializeAll_keeps:
  "diags (snd (initializeAll xs sc w)) = diags w \<and>
   buffers (snd (initializeAll xs sc w)) = buffers w \<and>
   draws (ops (snd (initializeAll xs sc w))) = draws (ops w)"
  by (induction xs arbitrary: w) (simp_all add: Let_def emit_def trace_append)

lemma initializeAll_trace:
  "\<forall>x\<in>set xs. initialize_ok x sc \<Longrightarrow>
     initializations (ops (snd (initializeAll xs sc w))) =
       initializations (ops w) @ map (\<lambda>x. (rend_id x, sc)) xs"
  by (induction xs arbitrary: w) (simp_all add: Let_def emit_def trace_append)

lemma EnsureBinding_done:
  assumes "EnsureBinding G dev c w = (None, c', w')"
  shows "bindGroup c' \<noteq> None \<and> bindGroupLayout c' \<noteq> None \<and>
         initializations (ops w') = initializations (ops w) \<and>
         draws (ops w') = draws (ops w)"
  using assms
  by (auto simp: EnsureBinding_def CreateUniformBuffer_def createBuffer_def new_handle_def
      emit_def updateMatrices_def updateProjection_def Let_def trace_append
      split: option.splits if_splits prod.splits sum.splits)

lemma EnsureBinding_with_device: "fst (EnsureBinding G (Some d) c w) = None"
  by (auto simp: EnsureBinding_def CreateUniformBuffer_def createBuffer_def new_handle_def
      Let_def split: option.splits if_splits prod.splits sum.splits)

text \<open>
  C4. \<open>Prepare\<close> with a renderer that is not initialized reports the error
  \<open>WGPURSCENE_RENDERER_NOT_INITIALIZED\<close> and changes nothing else, so the flag
  \<open>hasPrepared\<close> stays as it was: false for a scene that was never prepared. When
  \<open>Prepare\<close> turns the flag from false to true, the renderer was initialized,
  \<open>Initialize\<close> was called on every renderable of the scene, in order, and each call
  succeeded, the camera has its bind group and layout, and \<open>Prepare\<close> returned
  normally. With an initialized renderer that has a device, and renderables whose
  \<open>Initialize\<close> succeeds, the flag is true afterwards.
\<close>

theorem Prepare_sets_flag_last:
  "(\<not> hasInitialized r \<longrightarrow>
      Prepare G r (s, cam, w) =
        (None, (s, cam, w\<lparr> diags := diags w @ [(Error, WGPURSCENE_RENDERER_NOT_INITIALIZED)] \<rparr>)) \<and>
      hasPrepared (fst (snd (Prepare G r (s, cam, w)))) = hasPrepared s \<and>
      \<not> hasPrepared (fst (snd (Prepare G r (new_Scene, cam, w))))) \<and>
   (\<not> hasPrepared s \<and> hasPrepared (fst (snd (Prepare G r (s, cam, w)))) \<longrightarrow>
      hasInitialized r \<and>
      (\<forall>x\<in>set (rendererables s). initialize_ok x (prepareSampleCount r)) \<and>
      initializations (ops (snd (snd (snd (Prepare G r (s, cam, w)))))) =
        initializations (ops w) @ map (\<lambda>x. (rend_id x, prepareSampleCount r)) (rendererables s) \<and>
      bindGroup (fst (snd (snd (Prepare G r (s, cam, w))))) \<noteq> None \<and>
      bindGroupLayout (fst (snd (snd (Prepare G r (s, cam, w))))) \<noteq> None \<and>
      fst (Prepare G r (s, cam, w)) = None) \<and>
   (hasInitialized r \<and> gpuDevice r = Some dev \<and>
      (\<forall>x\<in>set (rendererables s). initialize_ok x (prepareSampleCount r)) \<longrightarrow>
      hasPrepared (fst (snd (Prepare G r (s, cam, w)))))"
proof (intro conjI impI)
  assume n: "\<not> hasInitialized r"
  then show "Prepare G r (s, cam, w) =
        (None, (s, cam, w\<lparr> diags := diags w @ [(Error, WGPURSCENE_RENDERER_NOT_INITIALIZED)] \<rparr>))"
    by (simp add: Prepare_def report_def)
  from n show "hasPrepared (fst (snd (Prepare G r (s, cam, w)))) = hasPrepared s"
    by (simp add: Prepare_def)
  from n show "\<not> hasPrepared (fst (snd (Prepare G r (new_Scene, cam, w))))"
    by (simp add: Prepare_def new_Scene_def)
next
  assume a: "\<not> hasPrepared s \<and> hasPrepared (fst (snd (Prepare G r (s, cam, w))))"
  define sc where "sc = prepareSampleCount r"
  obtain e1 w1 where i: "initializeAll (rendererables s) sc w = (e1, w1)" by fastforce
  obtain e2 cam1 w2 where b: "EnsureBinding G (gpuDevice r) cam w1 = (e2, cam1, w2)"
    by (cases "EnsureBinding G (gpuDevice r) cam w1") auto
  have init: "hasInitialized r"
    using a by (cases "hasInitialized r") (simp_all add: Prepare_def)
  have e1: "e1 = None"
    using a init i by (cases e1) (simp_all add: Prepare_def sc_def)
  have e2: "e2 = None"
    using a init i e1 b by (cases e2) (simp_all add: Prepare_def sc_def)
  have eq: "Prepare G r (s, cam, w) =
      (None, (s\<lparr> hasPrepared := True \<rparr>, cam1, report Info NoCode w2))"
    using init i e1 b e2 by (simp add: Prepare_def sc_def)
  have all: "\<forall>x\<in>set (rendererables s). initialize_ok x sc"
    using initializeAll_result[of "rendererables s" sc w] i e1 by simp
  have t1: "initializations (ops w1) =
      initializations (ops w) @ map (\<lambda>x. (rend_id x, sc)) (rendererables s)"
    using initializeAll_trace[OF all, of w] i by simp
  from EnsureBinding_done[OF b[unfolded e2]]
  have eb: "bindGroup cam1 \<noteq> None" "bindGroupLayout cam1 \<noteq> None"
    "initializations (ops w2) = initializations (ops w1)" by simp_all
  show "hasInitialized r" by (rule init)
  show "\<forall>x\<in>set (rendererables s). initialize_ok x (prepareSampleCount r)"
    using all by (simp add: sc_def)
  show "initializations (ops (snd (snd (snd (Prepare G r (s, cam, w)))))) =
        initializations (ops w) @ map (\<lambda>x. (rend_id x, prepareSampleCount r)) (rendererables s)"
    unfolding eq using t1 eb(3) by (simp add: report_def sc_def)
  show "bindGroup (fst (snd (snd (Prepare G r (s, cam, w))))) \<noteq> None"
    unfolding eq using eb(1) by simp
  show "bindGroupLayout (fst (snd (snd (Prepare G r (s, cam, w))))) \<noteq> None"
    unfolding eq using eb(2) by simp
  show "fst (Prepare G r (s, cam, w)) = None" unfolding eq by simp
next
  assume a: "hasInitialized r \<and> gpuDevice r = Some dev \<and>
      (\<forall>x\<in>set (rendererables s). initialize_ok x (prepareSampleCount r))"
  define sc where "sc = prepareSampleCount r"
  obtain e1 w1 where i: "initializeAll (rendererables s) sc w = (e1, w1)" by fastforce
  have e1: "e1 = None"
    using initializeAll_result[of "rendererables s" sc w] i a by (simp add: sc_def)
  obtain e2 cam1 w2 where b: "EnsureBinding G (Some dev) cam w1 = (e2, cam1, w2)"
    by (cases "EnsureBinding G (Some dev) cam w1") auto
  have e2: "e2 = None" using EnsureBinding_with_device[of G dev cam w1] b by simp
  show "hasPrepared (fst (snd (Prepare G r (s, cam, w))))"
    using a i e1 b e2 by (simp add: Prepare_def sc_def)
qed

theorem Prepare_sets_flag_last_witness:
  "\<not> hasInitialized (new_WebGPURenderer browser no_options) \<and>
   \<not> hasPrepared (fst (snd (Prepare example_gl (new_WebGPURenderer browser no_options)
        (example_scene, example_camera, new_world)))) \<and>
   diags (snd (snd (snd (Prepare example_gl (new_WebGPURenderer browser no_options)
        (example_scene, example_camera, new_world))))) =
     [(Error, WGPURSCENE_RENDERER_NOT_INITIALIZED)] \<and>
   \<not> hasPrepared example_scene \<and> hasPrepared prepared_scene \<and>
   hasInitialized (fst (initialized no_options)) \<and>
   initializations (ops prepared_world) = [(0, 1), (1, 1)] \<and>
   bindGroup prepared_camera \<noteq> None \<and>
   fst (Prepare example_gl (fst (initialized (no_options\<lparr> msaaSampleCount := Some 3 \<rparr>)))
        (example_scene, example_camera,
         snd (initialized (no_options\<lparr> msaaSampleCount := Some 3 \<rparr>)))) =
     Some InitializeRejected \<and>
   \<not> hasPrepared (fst (snd
       (Prepare example_gl (fst (initialized (no_options\<lparr> msaaSampleCount := Some 3 \<rparr>)))
        (example_scene, example_camera,
         snd (initialized (no_options\<lparr> msaaSampleCount := Some 3 \<rparr>))))))"
proof -
  have n: "\<not> hasInitialized (new_WebGPURenderer browser no_options)"
    and u: "\<not> hasPrepared example_scene"
    and p: "hasPrepared prepared_scene"
    and h: "hasInitialized (fst (initialized no_options))"
    and o: "initializations (ops (snd (initialized no_options))) = []"
    and m: "map (\<lambda>x. (rend_id x, prepareSampleCount (fst (initialized no_options))))
              (rendererables example_scene) = [(0, 1), (1, 1)]"
    and d: "diags new_world = []"
    and r: "fst (Prepare example_gl (fst (initialized (no_options\<lparr> msaaSampleCount := Some 3 \<rparr>)))
        (example_scene, example_camera,
         snd (initialized (no_options\<lparr> msaaSampleCount := Some 3 \<rparr>)))) =
       Some InitializeRejected"
    and q: "\<not> hasPrepared (fst (snd
       (Prepare example_gl (fst (initialized (no_options\<lparr> msaaSampleCount := Some 3 \<rparr>)))
        (example_scene, example_camera,
         snd (initialized (no_options\<lparr> msaaSampleCount := Some 3 \<rparr>))))))"
    by (simp_all add: init_defs example_defs)
  note a = Prepare_sets_flag_last[where r = "new_WebGPURenderer browser no_options"
      and G = example_gl and s = example_scene and cam = example_camera and w = new_world]
  note b = Prepare_sets_flag_last[where r = "fst (initialized no_options)"
      and G = example_gl and s = example_scene and cam = example_camera
      and w = "snd (initialized no_options)"]
  have p': "hasPrepared (fst (snd (Prepare example_gl (fst (initialized no_options))
      (example_scene, example_camera, snd (initialized no_options)))))"
    using p by (simp only: prepared_scene_def prepared_example_def)
  from a n d have 1:
    "\<not> hasPrepared (fst (snd (Prepare example_gl (new_WebGPURenderer browser no_options)
        (example_scene, example_camera, new_world))))"
    "diags (snd (snd (snd (Prepare example_gl (new_WebGPURenderer browser no_options)
        (example_scene, example_camera, new_world))))) =
     [(Error, WGPURSCENE_RENDERER_NOT_INITIALIZED)]"
    using u by simp_all
  from b u p' o m have 2:
    "initializations (ops prepared_world) = [(0, 1), (1, 1)]"
    "bindGroup prepared_camera \<noteq> None"
    by (simp_all only: prepared_world_def prepared_camera_def prepared_example_def) simp_all
  from n 1 u p h 2 r q show ?thesis by blast
qed

lemma length_array_bytes: "length (array_bytes xs) = 4 * length xs"
  by (induction xs) (simp_all add: array_bytes_def f32_bytes_def)

lemma length_fromValues: "length (fromValues G v) = 3"
  by (cases v) (simp add: fromValues_def)

lemma writeBuffer_store:
  assumes "buffers w b = Some bs" and "off + length data \<le> length bs"
  shows "buffers (writeBuffer b off data w) =
           (buffers w)(b \<mapsto> take off bs @ data @ drop (off + length data) bs)"
  using assms by (simp add: writeBuffer_def Let_def emit_def)

lemma WriteUniformsToQueue_store:
  assumes ub: "uniformBuffer c = Some b" and bs: "buffers w b = Some bs"
    and len: "length bs = 80" and vp: "length (viewProjection c) = 16"
  shows "buffers (WriteUniformsToQueue G c w) =
           (buffers w)(b \<mapsto> array_bytes (viewProjection c) @
                              array_bytes (fromValues G (position c)) @ drop 76 bs)"
proof -
  let ?V = "array_bytes (viewProjection c)" and ?P = "array_bytes (fromValues G (position c))"
  have lv: "length ?V = 64" by (simp add: length_array_bytes vp)
  have lp: "length ?P = 12" by (simp add: length_array_bytes length_fromValues)
  let ?w1 = "writeBuffer b 0 ?V w"
  have s1: "buffers ?w1 = (buffers w)(b \<mapsto> ?V @ drop 64 bs)"
    using writeBuffer_store[OF bs, of 0 ?V] lv len by simp
  then have b1: "buffers ?w1 b = Some (?V @ drop 64 bs)" by simp
  have fit: "64 + length ?P \<le> length (?V @ drop 64 bs)" using lv lp len by simp
  have "buffers (writeBuffer b 64 ?P ?w1) =
          (buffers ?w1)(b \<mapsto> take 64 (?V @ drop 64 bs) @ ?P @
                                 drop (64 + length ?P) (?V @ drop 64 bs))"
    by (rule writeBuffer_store[OF b1 fit])
  also have "\<dots> = (buffers w)(b \<mapsto> ?V @ ?P @ drop 76 bs)"
    using lv lp by (simp add: s1)
  finally show ?thesis by (simp add: WriteUniformsToQueue_def ub Let_def)
qed

lemma f32_bytes_nth: "n < 4 \<Longrightarrow> f32_bytes x ! n = ucast (drop_bit (8 * n) x)"
proof -
  assume "n < 4"
  then consider "n = 0" | "n = 1" | "n = 2" | "n = 3" by linarith
  then show ?thesis by cases (simp_all add: f32_bytes_def)
qed

lemma length_f32_bytes: "length (f32_bytes x) = 4"
  by (simp add: f32_bytes_def)

lemma array_bytes_Cons: "array_bytes (x # xs) = f32_bytes x @ array_bytes xs"
  by (simp add: array_bytes_def)

lemma array_bytes_nth:
  "k < length xs \<Longrightarrow> n < 4 \<Longrightarrow> array_bytes xs ! (4 * k + n) = f32_bytes (xs ! k) ! n"
proof (induction xs arbitrary: k)
  case Nil
  then show ?case by simp
next
  case (Cons x xs)
  show ?case
  proof (cases k)
    case 0
    then show ?thesis using Cons.prems(2)
      by (simp add: array_bytes_Cons nth_append length_f32_bytes)
  next
    case (Suc j)
    then have j: "j < length xs" using Cons.prems(1) by simp
    have "4 * k + n = 4 + (4 * j + n)" using Suc by simp
    then show ?thesis using Cons.IH[OF j Cons.prems(2)] Suc
      by (simp add: array_bytes_Cons nth_append length_f32_bytes)
  qed
qed

text \<open>
  C5. For a camera whose uniform buffer has 80 bytes, \<open>WriteUniformsToQueue\<close> leaves the
  buffer with these 80 bytes: from offset 0 the 64 bytes of the view-projection matrix,
  column after column (the entry in row \<open>i\<close> and column \<open>j\<close> at offset \<open>4 * (4 * j + i)\<close>);
  from offset 64 the position, x at 64, y at 68 and z at 72, each stored as a 32-bit float;
  and the last 4 bytes as they were. Each float is 4 bytes, lowest byte first. The call
  writes no diagnostic, and a second write with the same camera leaves every buffer as the
  first did. \<open>CreateUniformBuffer\<close> on a camera without a buffer makes one buffer of 80
  bytes.
\<close>

theorem WriteUniformsToQueue_layout:
  assumes "uniformBuffer c = Some b" and "buffers w b = Some bs"
    and "length bs = 80" and "length (viewProjection c) = 16"
  shows "\<exists>bs'. buffers (WriteUniformsToQueue G c w) b = Some bs' \<and> length bs' = 80 \<and>
           (\<forall>j<4. \<forall>i<4. \<forall>n<4.
              bs' ! (4 * (4 * j + i) + n) =
                ucast (drop_bit (8 * n) (mat4_at (viewProjection c) i j))) \<and>
           (\<forall>n<4. bs' ! (64 + n) = ucast (drop_bit (8 * n) (fround G (fst (position c)))) \<and>
                  bs' ! (68 + n) =
                    ucast (drop_bit (8 * n) (fround G (fst (snd (position c))))) \<and>
                  bs' ! (72 + n) =
                    ucast (drop_bit (8 * n) (fround G (snd (snd (position c))))) \<and>
                  bs' ! (76 + n) = bs ! (76 + n)) \<and>
           buffers (WriteUniformsToQueue G c (WriteUniformsToQueue G c w)) =
             buffers (WriteUniformsToQueue G c w) \<and>
           diags (WriteUniformsToQueue G c w) = diags w \<and>
           (uniformBuffer c' = None \<longrightarrow>
              CreateUniformBuffer (Some d) c' w' =
                (Inr (fresh w'), c'\<lparr> uniformBuffer := Some (fresh w') \<rparr>,
                 snd (createBuffer 80 w')) \<and>
              buffers (snd (createBuffer 80 w')) (fresh w') = Some (replicate 80 0))"
proof -
  let ?V = "array_bytes (viewProjection c)" and ?P = "array_bytes (fromValues G (position c))"
  let ?bs = "?V @ ?P @ drop 76 bs"
  let ?w = "WriteUniformsToQueue G c w"
  obtain x y z where pos: "position c = (x, y, z)" by (cases "position c") auto
  have P: "?P = array_bytes [fround G x, fround G y, fround G z]"
    by (simp add: pos fromValues_def)
  have lv: "length ?V = 64" by (simp add: length_array_bytes assms(4))
  have lp: "length ?P = 12" by (simp add: length_array_bytes length_fromValues)
  have lb: "length ?bs = 80" using lv lp assms(3) by simp
  have s: "buffers ?w = (buffers w)(b \<mapsto> ?bs)"
    by (rule WriteUniformsToQueue_store[OF assms])
  then have sb: "buffers ?w b = Some ?bs" by simp
  have dr: "drop 76 ?bs = drop 76 bs" using lv lp by simp
  have "buffers (WriteUniformsToQueue G c ?w) = (buffers ?w)(b \<mapsto> ?V @ ?P @ drop 76 ?bs)"
    by (rule WriteUniformsToQueue_store[OF assms(1) sb lb assms(4)])
  then have idem: "buffers (WriteUniformsToQueue G c ?w) = buffers ?w"
    unfolding dr s by simp
  have dg: "diags ?w = diags w"
    by (simp add: WriteUniformsToQueue_def assms(1) Let_def writeBuffer_keeps)
  have mat: "?bs ! (4 * (4 * j + i) + n) =
      ucast (drop_bit (8 * n) (mat4_at (viewProjection c) i j))"
    if "j < 4" "i < 4" "n < 4" for j i n
  proof -
    have k: "4 * j + i < length (viewProjection c)" using that assms(4) by simp
    have "4 * (4 * j + i) + n < length ?V" using that lv by simp
    then have "?bs ! (4 * (4 * j + i) + n) = ?V ! (4 * (4 * j + i) + n)"
      by (simp add: nth_append)
    also have "\<dots> = f32_bytes (viewProjection c ! (4 * j + i)) ! n"
      by (rule array_bytes_nth[OF k that(3)])
    finally show ?thesis by (simp add: f32_bytes_nth that(3) mat4_at_def)
  qed
  have tail: "?bs ! (64 + m) = (?P @ drop 76 bs) ! m" for m
    using lv by (simp add: nth_append)
  have pv: "?P ! (4 * k + n) = ucast (drop_bit (8 * n) ([fround G x, fround G y, fround G z] ! k))"
    if "k < 3" "n < 4" for k n
    unfolding P using array_bytes_nth[of k "[fround G x, fround G y, fround G z]" n] that
    by (simp add: f32_bytes_nth)
  have posb: "?bs ! (64 + n) = ucast (drop_bit (8 * n) (fround G (fst (position c)))) \<and>
      ?bs ! (68 + n) = ucast (drop_bit (8 * n) (fround G (fst (snd (position c))))) \<and>
      ?bs ! (72 + n) = ucast (drop_bit (8 * n) (fround G (snd (snd (position c))))) \<and>
      ?bs ! (76 + n) = bs ! (76 + n)"
    if n: "n < 4" for n
  proof -
    have a: "?bs ! (64 + n) = ?P ! (4 * 0 + n)"
      using tail[of n] lp n by (simp add: nth_append)
    have b: "?bs ! (68 + n) = ?P ! (4 * 1 + n)"
      using tail[of "4 + n"] lp n by (simp add: nth_append)
    have c: "?bs ! (72 + n) = ?P ! (4 * 2 + n)"
      using tail[of "8 + n"] lp n by (simp add: nth_append)
    have d: "?bs ! (76 + n) = bs ! (76 + n)"
      using tail[of "12 + n"] lp n assms(3) by (simp add: nth_append)
    show ?thesis
      unfolding a b c d using pv[of 0 n] pv[of 1 n] pv[of 2 n] n by (simp add: pos)
  qed
  have cr: "uniformBuffer c' = None \<longrightarrow>
            CreateUniformBuffer (Some d) c' w' =
              (Inr (fresh w'), c'\<lparr> uniformBuffer := Some (fresh w') \<rparr>,
               snd (createBuffer 80 w')) \<and>
            buffers (snd (createBuffer 80 w')) (fresh w') = Some (replicate 80 0)"
    by (simp add: CreateUniformBuffer_def createBuffer_def new_handle_def emit_def)
  show ?thesis
    apply (rule exI[of _ ?bs])
    using sb lb mat posb idem dg cr by blast
qed

lemma f32_bytes_one: "f32_bytes 0x3F800000 = [0, 0, 0x80, 0x3F]"
  by (simp add: f32_bytes_def)

lemma f32_bytes_zero: "f32_bytes 0 = [0, 0, 0, 0]"
  by (simp add: f32_bytes_def)

lemma SetPosition_fields:
  "uniformBuffer (SetPosition G v c) = uniformBuffer c"
  "position (SetPosition G v c) = v"
  "viewProjection (SetPosition example_gl v c) = mat4_create"
  by (simp_all add: SetPosition_def updateMatrices_def updateProjection_def Let_def
      example_gl_def)

theorem WriteUniformsToQueue_layout_witness:
  "uniformBuffer moved_again_camera = Some 8 \<and>
   position moved_again_camera = (0, 1, 0) \<and>
   length (viewProjection moved_again_camera) = 16 \<and>
   buffers moved_world 8 =
     Some (array_bytes mat4_create @
           [0, 0, 0x80, 0x3F,  0, 0, 0, 0,  0, 0, 0x80, 0x3F,  0, 0, 0, 0]) \<and>
   (\<exists>bs'. buffers (WriteUniformsToQueue example_gl moved_again_camera moved_world) 8 =
             Some bs' \<and>
          length bs' = 80 \<and> bs' ! 2 = 0x80 \<and> bs' ! 3 = 0x3F \<and> bs' ! 7 = 0 \<and>
          bs' ! 66 = 0 \<and> bs' ! 67 = 0 \<and> bs' ! 70 = 0x80 \<and> bs' ! 71 = 0x3F \<and>
          bs' ! 74 = 0 \<and> bs' ! 75 = 0 \<and> bs' ! 79 = 0)"
proof -
  have u0: "uniformBuffer prepared_camera = Some 8"
    and b0: "buffers prepared_world 8 = Some (replicate 80 0)"
    by (simp_all add: init_defs example_defs)
  have u1: "uniformBuffer moved_camera = Some 8"
    and p1: "position moved_camera = (1, 0, 1)"
    and v1: "viewProjection moved_camera = mat4_create"
    by (simp_all add: moved_camera_def SetPosition_fields u0)
  have u2: "uniformBuffer moved_again_camera = Some 8"
    and p2: "position moved_again_camera = (0, 1, 0)"
    and v2: "viewProjection moved_again_camera = mat4_create"
    by (simp_all add: moved_again_camera_def SetPosition_fields u1)
  have l16: "length mat4_create = 16" by (simp add: mat4_create_def)
  have l80: "length (replicate 80 (0::byte)) = 80" by simp
  have pb: "array_bytes (fromValues example_gl (1, 0, 1)) =
      [0, 0, 0x80, 0x3F,  0, 0, 0, 0,  0, 0, 0x80, 0x3F]"
    by (simp add: array_bytes_def fromValues_def example_gl_def f32_bytes_one f32_bytes_zero)
  have "buffers moved_world =
      (buffers prepared_world)(8 \<mapsto> array_bytes (viewProjection moved_camera) @
         array_bytes (fromValues example_gl (position moved_camera)) @
         drop 76 (replicate 80 0))"
    unfolding moved_world_def
    by (rule WriteUniformsToQueue_store[OF u1 b0 l80]) (simp add: v1 l16)
  then have mw: "buffers moved_world 8 =
     Some (array_bytes mat4_create @
           [0, 0, 0x80, 0x3F,  0, 0, 0, 0,  0, 0, 0x80, 0x3F,  0, 0, 0, 0])"
    by (simp add: v1 p1 pb numeral_eq_Suc)
  have lm: "length (array_bytes mat4_create @
           [0, 0, 0x80, 0x3F,  0, 0, 0, 0,  0, 0, 0x80, 0x3F,  0, 0, 0, 0 :: byte]) = 80"
    by (simp add: length_array_bytes l16)
  have l2: "length (viewProjection moved_again_camera) = 16" by (simp add: v2 l16)
  from WriteUniformsToQueue_layout[OF u2 mw lm l2, of example_gl]
  obtain bs' where
    r: "buffers (WriteUniformsToQueue example_gl moved_again_camera moved_world) 8 = Some bs'"
      "length bs' = 80"
    and m: "\<forall>j<4. \<forall>i<4. \<forall>n<4.
              bs' ! (4 * (4 * j + i) + n) =
                ucast (drop_bit (8 * n) (mat4_at (viewProjection moved_again_camera) i j))"
    and q: "\<forall>n<4. bs' ! (64 + n) =
                ucast (drop_bit (8 * n) (fround example_gl (fst (position moved_again_camera)))) \<and>
              bs' ! (68 + n) =
                ucast (drop_bit (8 * n)
                  (fround example_gl (fst (snd (position moved_again_camera))))) \<and>
              bs' ! (72 + n) =
                ucast (drop_bit (8 * n)
                  (fround example_gl (snd (snd (position moved_again_camera))))) \<and>
              bs' ! (76 + n) =
                (array_bytes mat4_create @
                 [0, 0, 0x80, 0x3F,  0, 0, 0, 0,  0, 0, 0x80, 0x3F,  0, 0, 0, 0]) ! (76 + n)"
    by blast
  have e00: "mat4_at mat4_create 0 0 = 0x3F800000"
    and e10: "mat4_at mat4_create (Suc 0) 0 = 0"
    by (simp_all add: mat4_at_def mat4_create_def)
  have fr: "fround example_gl 0 = 0" "fround example_gl 1 = 0x3F800000"
    by (simp_all add: example_gl_def)
  have lt: "(0::nat) < 4" "(1::nat) < 4" "(2::nat) < 4" "(3::nat) < 4" by simp_all
  have old79: "(array_bytes mat4_create @
      [0, 0, 0x80, 0x3F,  0, 0, 0, 0,  0, 0, 0x80, 0x3F,  0, 0, 0, 0 :: byte]) ! (76 + 3) = 0"
    by (simp add: nth_append length_array_bytes l16)
  have b2: "bs' ! 2 = 0x80"
  proof -
    have ix: "(4 * (4 * 0 + 0) + 2 :: nat) = 2" by arith
    have "bs' ! 2 = bs' ! (4 * (4 * 0 + 0) + 2)" unfolding ix ..
    also have "\<dots> = ucast (drop_bit (8 * 2) (mat4_at (viewProjection moved_again_camera) 0 0))" using m lt by blast
    also have "\<dots> = 0x80" by (simp add: v2 e00)
    finally show ?thesis .
  qed
  have b3: "bs' ! 3 = 0x3F"
  proof -
    have ix: "(4 * (4 * 0 + 0) + 3 :: nat) = 3" by arith
    have "bs' ! 3 = bs' ! (4 * (4 * 0 + 0) + 3)" unfolding ix ..
    also have "\<dots> = ucast (drop_bit (8 * 3) (mat4_at (viewProjection moved_again_camera) 0 0))" using m lt by blast
    also have "\<dots> = 0x3F" by (simp add: v2 e00)
    finally show ?thesis .
  qed
  have b7: "bs' ! 7 = 0"
  proof -
    have ix: "(4 * (4 * 0 + 1) + 3 :: nat) = 7" by arith
    have "bs' ! 7 = bs' ! (4 * (4 * 0 + 1) + 3)" unfolding ix ..
    also have "\<dots> = ucast (drop_bit (8 * 3) (mat4_at (viewProjection moved_again_camera) 1 0))" using m lt by blast
    also have "\<dots> = 0" by (simp add: v2 e10)
    finally show ?thesis .
  qed
  have b66: "bs' ! 66 = 0"
  proof -
    have ix: "(64 + 2 :: nat) = 66" by arith
    have "bs' ! 66 = bs' ! (64 + 2)" unfolding ix ..
    also have "\<dots> = ucast (drop_bit (8 * 2) (fround example_gl (fst (position moved_again_camera))))" using q lt by blast
    also have "\<dots> = 0" by (simp add: p2 fr)
    finally show ?thesis .
  qed
  have b67: "bs' ! 67 = 0"
  proof -
    have ix: "(64 + 3 :: nat) = 67" by arith
    have "bs' ! 67 = bs' ! (64 + 3)" unfolding ix ..
    also have "\<dots> = ucast (drop_bit (8 * 3) (fround example_gl (fst (position moved_again_camera))))" using q lt by blast
    also have "\<dots> = 0" by (simp add: p2 fr)
    finally show ?thesis .
  qed
  have b70: "bs' ! 70 = 0x80"
  proof -
    have ix: "(68 + 2 :: nat) = 70" by arith
    have "bs' ! 70 = bs' ! (68 + 2)" unfolding ix ..
    also have "\<dots> = ucast (drop_bit (8 * 2) (fround example_gl (fst (snd (position moved_again_camera)))))" using q lt by blast
    also have "\<dots> = 0x80" by (simp add: p2 fr)
    finally show ?thesis .
  qed
  have b71: "bs' ! 71 = 0x3F"
  proof -
    have ix: "(68 + 3 :: nat) = 71" by arith
    have "bs' ! 71 = bs' ! (68 + 3)" unfolding ix ..
    also have "\<dots> = ucast (drop_bit (8 * 3) (fround example_gl (fst (snd (position moved_again_camera)))))" using q lt by blast
    also have "\<dots> = 0x3F" by (simp add: p2 fr)
    finally show ?thesis .
  qed
  have b74: "bs' ! 74 = 0"
  proof -
    have ix: "(72 + 2 :: nat) = 74" by arith
    have "bs' ! 74 = bs' ! (72 + 2)" unfolding ix ..
    also have "\<dots> = ucast (drop_bit (8 * 2) (fround example_gl (snd (snd (position moved_again_camera)))))" using q lt by blast
    also have "\<dots> = 0" by (simp add: p2 fr)
    finally show ?thesis .
  qed
  have b75: "bs' ! 75 = 0"
  proof -
    have ix: "(72 + 3 :: nat) = 75" by arith
    have "bs' ! 75 = bs' ! (72 + 3)" unfolding ix ..
    also have "\<dots> = ucast (drop_bit (8 * 3) (fround example_gl (snd (snd (position moved_again_camera)))))" using q lt by blast
    also have "\<dots> = 0" by (simp add: p2 fr)
    finally show ?thesis .
  qed
  have b79: "bs' ! 79 = 0"
  proof -
    have ix: "(76 + 3 :: nat) = 79" by arith
    have "bs' ! 79 = bs' ! (76 + 3)" unfolding ix ..
    also have "\<dots> = (array_bytes mat4_create @
      [0, 0, 0x80, 0x3F,  0, 0, 0, 0,  0, 0, 0x80, 0x3F,  0, 0, 0, 0]) ! (76 + 3)"
      using q lt by blast
    also have "\<dots> = 0" by (rule old79)
    finally show ?thesis .
  qed
  from u2 p2 l2 mw r b2 b3 b7 b66 b67 b70 b71 b74 b75 b79 show ?thesis by blast
qed

end
